theory Spec2Isabelle
  imports Complex_Main "HOL-Library.Word"
begin

unbundle bit_operations_syntax

section \<open>Strings\<close>

text \<open>
  A JavaScript string is modelled as a \<^typ>\<open>string\<close> whose characters are its code
  units; the model covers the code units U+0000 .. U+00FF.  JavaScript's falsy values
  are written out: the empty string, the number zero, \<open>undefined\<close> and \<open>null\<close>
  (both \<^const>\<open>None\<close>).
\<close>

definition or_null_str :: "string option \<Rightarrow> string option" where
  \<comment> \<open>\<open>x || null\<close> for an optional string\<close>
  "or_null_str x = (case x of None \<Rightarrow> None | Some s \<Rightarrow> if s = [] then None else Some s)"

definition or_null_int :: "int option \<Rightarrow> int option" where
  \<comment> \<open>\<open>x || null\<close> for an optional number\<close>
  "or_null_int x = (case x of None \<Rightarrow> None | Some n \<Rightarrow> if n = 0 then None else Some n)"

definition or_null_rat :: "rat option \<Rightarrow> rat option" where
  "or_null_rat x = (case x of None \<Rightarrow> None | Some n \<Rightarrow> if n = 0 then None else Some n)"

definition or_zero :: "int option \<Rightarrow> int" where
  \<comment> \<open>\<open>x || 0\<close>\<close>
  "or_zero x = (case x of None \<Rightarrow> 0 | Some n \<Rightarrow> n)"

text \<open>
  The class \<open>\s\<close> of a regular expression, which is also what \<open>trim()\<close> strips:
  tab, line feed, vertical tab, form feed, carriage return, space and U+00A0.
\<close>

definition is_ws :: "char \<Rightarrow> bool" where
  "is_ws c = (of_char c \<in> {9, 10, 11, 12, 13, 32, 160 :: nat})"

definition trim :: "string \<Rightarrow> string" where
  "trim s = rev (dropWhile is_ws (rev (dropWhile is_ws s)))"

text \<open>\<open>.replace(/\s+/g, ' ')\<close>: every maximal run of whitespace becomes one space.\<close>

function collapse_ws :: "string \<Rightarrow> string" where
  "collapse_ws [] = []"
| "collapse_ws (c # cs) =
     (if is_ws c then CHR '' '' # collapse_ws (dropWhile is_ws cs) else c # collapse_ws cs)"
  by pat_completeness auto
termination
  by (relation "measure length") (auto simp add: less_Suc_eq_le length_dropWhile_le)

section \<open>MD5 (Node's \<open>crypto.createHash('md5')\<close>, RFC 1321)\<close>

text \<open>
  \<open>update(content)\<close> hashes the UTF-8 encoding of the string; \<open>digest('hex')\<close> is the
  16 bytes in lower-case hexadecimal.
\<close>

definition utf8 :: "string \<Rightarrow> nat list" where
  "utf8 s = concat (map (\<lambda>c. let n = of_char c :: nat in
                 if n < 128 then [n] else [192 + n div 64, 128 + n mod 64]) s)"

definition word_bytes :: "nat \<Rightarrow> 'a::len word \<Rightarrow> nat list" where
  \<comment> \<open>the low \<open>n\<close> bytes of a word, least significant first\<close>
  "word_bytes n w = map (\<lambda>i. unat (drop_bit (8 * i) w AND 0xff)) [0..<n]"

text \<open>
  Padding: the byte \<open>0x80\<close>, zero bytes up to 56 modulo 64, and the length in bits as
  eight bytes, least significant first.
\<close>

definition md5_pad :: "nat list \<Rightarrow> nat list" where
  "md5_pad bs = bs @ [128] @ replicate ((119 - length bs mod 64) mod 64) 0
                   @ word_bytes 8 (of_nat (8 * length bs) :: 64 word)"

definition md5_s :: "nat list" where
  "md5_s = [7, 12, 17, 22, 7, 12, 17, 22, 7, 12, 17, 22, 7, 12, 17, 22,
            5, 9, 14, 20, 5, 9, 14, 20, 5, 9, 14, 20, 5, 9, 14, 20,
            4, 11, 16, 23, 4, 11, 16, 23, 4, 11, 16, 23, 4, 11, 16, 23,
            6, 10, 15, 21, 6, 10, 15, 21, 6, 10, 15, 21, 6, 10, 15, 21]"

definition md5_K :: "32 word list" where
  "md5_K = [0xd76aa478, 0xe8c7b756, 0x242070db, 0xc1bdceee, 0xf57c0faf, 0x4787c62a, 0xa8304613, 0xfd469501, 0x698098d8, 0x8b44f7af, 0xffff5bb1, 0x895cd7be, 0x6b901122, 0xfd987193, 0xa679438e, 0x49b40821, 0xf61e2562, 0xc040b340, 0x265e5a51, 0xe9b6c7aa, 0xd62f105d, 0x2441453, 0xd8a1e681, 0xe7d3fbc8, 0x21e1cde6, 0xc33707d6, 0xf4d50d87, 0x455a14ed, 0xa9e3e905, 0xfcefa3f8, 0x676f02d9, 0x8d2a4c8a, 0xfffa3942, 0x8771f681, 0x6d9d6122, 0xfde5380c, 0xa4beea44, 0x4bdecfa9, 0xf6bb4b60, 0xbebfbc70, 0x289b7ec6, 0xeaa127fa, 0xd4ef3085, 0x4881d05, 0xd9d4d039, 0xe6db99e5, 0x1fa27cf8, 0xc4ac5665, 0xf4292244, 0x432aff97, 0xab9423a7, 0xfc93a039, 0x655b59c3, 0x8f0ccc92, 0xffeff47d, 0x85845dd1, 0x6fa87e4f, 0xfe2ce6e0, 0xa3014314, 0x4e0811a1, 0xf7537e82, 0xbd3af235, 0x2ad7d2bb, 0xeb86d391]"

text \<open>
  One of the 64 operations on the state \<open>(A, B, C, D)\<close>, for the 16 little-endian
  words \<open>M\<close> of a 64-byte block; the block's result is added to the state before it.
\<close>

type_synonym md5_state = "32 word \<times> 32 word \<times> 32 word \<times> 32 word"

definition md5_step :: "32 word list \<Rightarrow> nat \<Rightarrow> md5_state \<Rightarrow> md5_state" where
  "md5_step M i st =
     (case st of (A, B, C, D) \<Rightarrow>
        let F = (if i < 16 then (B AND C) OR (NOT B AND D)
                 else if i < 32 then (D AND B) OR (NOT D AND C)
                 else if i < 48 then B XOR C XOR D
                 else C XOR (B OR NOT D));
            g = (if i < 16 then i
                 else if i < 32 then (5 * i + 1) mod 16
                 else if i < 48 then (3 * i + 5) mod 16
                 else (7 * i) mod 16);
            F' = F + A + md5_K ! i + M ! g
        in (D, B + word_rotl (md5_s ! i) F', B, C))"

definition md5_words :: "nat list \<Rightarrow> 32 word list" where
  "md5_words chunk =
     map (\<lambda>j. of_nat (chunk ! (4 * j)) + push_bit 8 (of_nat (chunk ! (4 * j + 1)))
                + push_bit 16 (of_nat (chunk ! (4 * j + 2)))
                + push_bit 24 (of_nat (chunk ! (4 * j + 3))))
         [0..<16]"

definition md5_chunk :: "nat list \<Rightarrow> md5_state \<Rightarrow> md5_state" where
  "md5_chunk chunk st =
     (case st of (a0, b0, c0, d0) \<Rightarrow>
        case fold (md5_step (md5_words chunk)) [0..<64] st of
          (A, B, C, D) \<Rightarrow> (a0 + A, b0 + B, c0 + C, d0 + D))"

definition md5_digest :: "nat list \<Rightarrow> nat list" where
  "md5_digest bs =
     (let padded = md5_pad bs;
          st = fold (\<lambda>k. md5_chunk (take 64 (drop (64 * k) padded)))
                 [0..<length padded div 64]
                 (0x67452301, 0xefcdab89, 0x98badcfe, 0x10325476)
      in case st of (a, b, c, d) \<Rightarrow> concat (map (word_bytes 4) [a, b, c, d]))"

definition hex_byte :: "nat \<Rightarrow> string" where
  "hex_byte b = [''0123456789abcdef'' ! (b div 16), ''0123456789abcdef'' ! (b mod 16)]"

definition md5Hash :: "string \<Rightarrow> string" where
  "md5Hash content = concat (map hex_byte (md5_digest (utf8 content)))"

lemma length_hex_bytes: "length (concat (map hex_byte bs)) = 2 * length bs"
  by (induction bs) (simp_all add: hex_byte_def)

lemma length_md5_digest: "length (md5_digest bs) = 16"
  by (simp add: md5_digest_def Let_def word_bytes_def split: prod.splits)

lemma length_md5Hash: "length (md5Hash s) = 32"
  by (simp add: md5Hash_def length_hex_bytes length_md5_digest)

lemma md5Hash_nonempty: "md5Hash s \<noteq> []"
  using length_md5Hash [of s] by auto

lemma md5Hash_empty_string: "md5Hash [] = ''d41d8cd98f00b204e9800998ecf8427e''"
  by code_simp

section \<open>Hashing utilities (src/utils/hash.ts)\<close>

definition hashHtmlContent :: "string \<Rightarrow> string" where
  "hashHtmlContent html = (if html = [] then [] else md5Hash (trim (collapse_ws html)))"

section \<open>Navigation types (src/types/navigation.types.ts)\<close>

datatype LinkType = lt_text | lt_image | lt_icon

record NavItem =
  url :: string
  label :: string
  depth :: nat
  order :: nat
  parent_labels :: "string list option"
  is_external :: bool
  link_type :: LinkType

datatype LinkSourceType =
  contextual_body | faq_module | toc_or_jump | st_breadcrumb | st_primary_nav | st_footer
  | template_cta | repeated_block | related_posts | author_bio | testimonial

record ContentLink =
  cl_url :: string
  cl_label :: string
  source_type :: LinkSourceType
  nearest_heading :: "string option"
  body_position_pct :: int
  cl_is_external :: bool

record BreadcrumbItem =
  bc_label :: string
  bc_url :: "string option"

record StructuralStats =
  faq_modules :: nat
  toc_sections :: nat
  breadcrumbs :: nat
  template_ctas :: nat
  accordions :: nat
  testimonials :: nat
  author_bios :: nat
  related_posts_count :: nat

record NavStructure =
  primary_nav :: "NavItem list"
  footer_nav :: "NavItem list"
  utility_header :: "NavItem list"
  language_switcher :: "NavItem list"
  breadcrumb :: "BreadcrumbItem list"
  content_links :: "ContentLink list"
  nav_stats :: StructuralStats

section \<open>Database types (src/types/database.types.ts, src/db/schema.sql)\<close>

datatype CrawlStatus = OK | REDIRECT_ALIAS | NOT_FOUND | SOFT_404 | ERROR

datatype FetchMode = cheerio | playwright

text \<open>
  \<open>ExtractionMethod\<close> is the union of the string literals \<open>'readability'\<close>,
  \<open>'semantic'\<close>, \<open>'cms_pattern'\<close> and \<open>'fallback'\<close>; the column is a
  \<open>VARCHAR(50)\<close>.  It is kept as the string it is at run time.
\<close>

type_synonym ExtractionMethod = string

text \<open>
  \<open>CrawlerPageInsert\<close>: the argument of \<open>upsertPage\<close>.  An optional property is an
  \<^typ>\<open>'a option\<close>.  The crawler passes \<open>nav_structure\<close> and
  \<open>sitemap_type_hint\<close> along with the declared properties.
\<close>

record CrawlerPageInsert =
  p_final_url :: string
  p_requested_url_original :: "string option"
  p_status_code :: "int option"
  p_crawl_status :: CrawlStatus
  p_redirect_chain :: "string list option"
  p_html_content :: "string option"
  p_clean_html :: "string option"
  p_markdown :: "string option"
  p_nav_structure :: "NavStructure option"
  p_title :: "string option"
  p_h1 :: "string option"
  p_meta_description :: "string option"
  p_word_count :: "int option"
  p_content_hash :: "string option"
  p_fetch_mode :: "FetchMode option"
  p_extraction_method :: "ExtractionMethod option"
  p_junk_score :: "rat option"
  p_sitemap_type_hint :: "string option"
  p_last_error :: "string option"
  p_run_id :: "string option"

text \<open>
  A row of \<open>crawler_pages\<close>, with the columns of the schema, of migration 001
  (\<open>markdown_enhanced\<close>, \<open>structural_stats\<close>) and the two columns the queries and the
  backfill scripts name (\<open>sitemap_type_hint\<close>, \<open>nav_structure\<close>).  \<open>NULL\<close> is
  \<^const>\<open>None\<close>; a timestamp is a number.
\<close>

record CrawlerPage =
  row_id :: nat
  final_url :: string
  requested_url_original :: "string option"
  status_code :: "int option"
  crawl_status :: CrawlStatus
  redirect_chain :: "string list option"
  html_content :: "string option"
  clean_html :: "string option"
  markdown :: "string option"
  markdown_enhanced :: "string option"
  title :: "string option"
  h1 :: "string option"
  meta_description :: "string option"
  word_count :: "int option"
  content_hash :: "string option"
  sitemap_type_hint :: "string option"
  nav_structure :: "NavStructure option"
  structural_stats :: "StructuralStats option"
  fetch_mode :: "FetchMode option"
  extraction_method :: "ExtractionMethod option"
  junk_score :: "rat option"
  last_crawled_at :: nat
  last_error :: "string option"
  run_id :: "string option"

text \<open>
  The table: \<open>final_url\<close> is \<open>UNIQUE\<close>, so the rows are a map from it; \<open>id\<close> is
  \<open>AUTO_INCREMENT\<close>.  Strings are compared character by character (the columns'
  collation also identifies strings that differ in case or trailing spaces; the MD5
  hashes compared below are 32 lower-case hexadecimal digits, on which the two agree).
  A JSON column holds the value that was serialized into it.
\<close>

record crawler_db =
  pages :: "string \<rightharpoonup> CrawlerPage"
  auto_increment :: nat

section \<open>upsertPage (src/db/queries.ts)\<close>

text \<open>The parameter array \<open>params\<close>: each property with its \<open>|| null\<close> (or \<open>|| 0\<close>).\<close>

definition params :: "CrawlerPageInsert \<Rightarrow> CrawlerPageInsert" where
  "params page = page
     \<lparr> p_requested_url_original := or_null_str (p_requested_url_original page),
       p_status_code := or_null_int (p_status_code page),
       p_html_content := or_null_str (p_html_content page),
       p_clean_html := or_null_str (p_clean_html page),
       p_markdown := or_null_str (p_markdown page),
       p_title := or_null_str (p_title page),
       p_h1 := or_null_str (p_h1 page),
       p_meta_description := or_null_str (p_meta_description page),
       p_word_count := Some (or_zero (p_word_count page)),
       p_content_hash := or_null_str (p_content_hash page),
       p_sitemap_type_hint := or_null_str (p_sitemap_type_hint page),
       p_extraction_method := or_null_str (p_extraction_method page),
       p_junk_score := or_null_rat (p_junk_score page),
       p_last_error := or_null_str (p_last_error page),
       p_run_id := or_null_str (p_run_id page) \<rparr>"

text \<open>SQL's \<open>COALESCE(a, b)\<close>.\<close>

definition COALESCE :: "'a option \<Rightarrow> 'a option \<Rightarrow> 'a option" where
  "COALESCE a b = (case a of None \<Rightarrow> b | Some x \<Rightarrow> Some x)"

text \<open>
  \<open>VALUES(content_hash) IS NOT NULL AND VALUES(content_hash) != COALESCE(content_hash, '')\<close>,
  as the condition of an \<open>IF\<close> (an unknown comparison counts as false; here the first
  conjunct decides whenever the new hash is \<open>NULL\<close>).
\<close>

definition hash_changed :: "string option \<Rightarrow> string option \<Rightarrow> bool" where
  "hash_changed new_hash stored_hash =
     (case new_hash of
        None \<Rightarrow> False
      | Some h \<Rightarrow> h \<noteq> (case stored_hash of None \<Rightarrow> [] | Some s \<Rightarrow> s))"

text \<open>The row the \<open>INSERT\<close> writes when no row has the \<open>final_url\<close>.\<close>

definition insert_row :: "nat \<Rightarrow> nat \<Rightarrow> CrawlerPageInsert \<Rightarrow> CrawlerPage" where
  "insert_row new_id now v =
     \<lparr> row_id = new_id,
       final_url = p_final_url v,
       requested_url_original = p_requested_url_original v,
       status_code = p_status_code v,
       crawl_status = p_crawl_status v,
       redirect_chain = p_redirect_chain v,
       html_content = p_html_content v,
       clean_html = p_clean_html v,
       markdown = p_markdown v,
       markdown_enhanced = None,
       title = p_title v,
       h1 = p_h1 v,
       meta_description = p_meta_description v,
       word_count = p_word_count v,
       content_hash = p_content_hash v,
       sitemap_type_hint = p_sitemap_type_hint v,
       nav_structure = None,
       structural_stats = None,
       fetch_mode = p_fetch_mode v,
       extraction_method = p_extraction_method v,
       junk_score = p_junk_score v,
       last_crawled_at = now,
       last_error = p_last_error v,
       run_id = p_run_id v \<rparr>"

text \<open>
  \<open>ON DUPLICATE KEY UPDATE\<close>: the assignments in the statement's order, each reading
  the row as the assignments before it have left it (MySQL evaluates them left to right).
\<close>

definition on_duplicate_key_update :: "nat \<Rightarrow> CrawlerPageInsert \<Rightarrow> CrawlerPage \<Rightarrow> CrawlerPage" where
  "on_duplicate_key_update now v r0 =
     (let r1 = r0\<lparr> status_code := p_status_code v \<rparr>;
          r2 = r1\<lparr> crawl_status := p_crawl_status v \<rparr>;
          r3 = r2\<lparr> redirect_chain := p_redirect_chain v \<rparr>;
          r4 = r3\<lparr> fetch_mode := p_fetch_mode v \<rparr>;
          r5 = r4\<lparr> html_content :=
                 (if hash_changed (p_content_hash v) (content_hash r4)
                  then p_html_content v else html_content r4) \<rparr>;
          r6 = r5\<lparr> clean_html :=
                 (if hash_changed (p_content_hash v) (content_hash r5)
                  then p_clean_html v else clean_html r5) \<rparr>;
          r7 = r6\<lparr> markdown := COALESCE (p_markdown v) (markdown r6) \<rparr>;
          r8 = r7\<lparr> title := COALESCE (p_title v) (title r7) \<rparr>;
          r9 = r8\<lparr> h1 := COALESCE (p_h1 v) (h1 r8) \<rparr>;
          r10 = r9\<lparr> meta_description := COALESCE (p_meta_description v) (meta_description r9) \<rparr>;
          r11 = r10\<lparr> word_count := COALESCE (p_word_count v) (word_count r10) \<rparr>;
          r12 = r11\<lparr> extraction_method := COALESCE (p_extraction_method v) (extraction_method r11) \<rparr>;
          r13 = r12\<lparr> junk_score := COALESCE (p_junk_score v) (junk_score r12) \<rparr>;
          r14 = r13\<lparr> content_hash := COALESCE (p_content_hash v) (content_hash r13) \<rparr>;
          r15 = r14\<lparr> sitemap_type_hint := COALESCE (p_sitemap_type_hint v) (sitemap_type_hint r14) \<rparr>;
          r16 = r15\<lparr> last_error := p_last_error v \<rparr>;
          r17 = r16\<lparr> last_crawled_at := now \<rparr>
      in r17\<lparr> run_id := p_run_id v \<rparr>)"

definition upsertPage :: "nat \<Rightarrow> CrawlerPageInsert \<Rightarrow> crawler_db \<Rightarrow> crawler_db" where
  "upsertPage now page db =
     (let v = params page in
      case pages db (p_final_url v) of
        None \<Rightarrow>
          db\<lparr> pages := (pages db)(p_final_url v \<mapsto> insert_row (auto_increment db) now v),
              auto_increment := auto_increment db + 1 \<rparr>
      | Some r \<Rightarrow>
          db\<lparr> pages := (pages db)(p_final_url v \<mapsto> on_duplicate_key_update now v r) \<rparr>)"

lemma upsertPage_existing:
  "pages db (p_final_url page) = Some r \<Longrightarrow>
   pages (upsertPage now page db) (p_final_url page) =
     Some (on_duplicate_key_update now (params page) r)"
  by (simp add: upsertPage_def params_def Let_def)


subsection \<open>The content-hash gate\<close>

text \<open>Concrete rows and page data, used to run the upsert below.\<close>

definition stored_page :: CrawlerPage where
  "stored_page =
     \<lparr> row_id = 1,
       final_url = ''https://ex.com/a'',
       requested_url_original = Some ''https://ex.com/a'',
       status_code = Some 200,
       crawl_status = OK,
       redirect_chain = None,
       html_content = Some ''<html><body><p>old</p></body></html>'',
       clean_html = Some ''<p>old</p>'',
       markdown = Some ''old'',
       markdown_enhanced = None,
       title = Some ''Old title'',
       h1 = Some ''Old'',
       meta_description = Some ''about'',
       word_count = Some 500,
       content_hash = Some ''3549ff4940d543a98e2659792113dce9'',
       sitemap_type_hint = Some ''post'',
       nav_structure = None,
       structural_stats = None,
       fetch_mode = Some cheerio,
       extraction_method = Some ''readability'',
       junk_score = Some (1 / 4),
       last_crawled_at = 10,
       last_error = None,
       run_id = Some ''run-1'' \<rparr>"

definition stored_db :: crawler_db where
  "stored_db = \<lparr> pages = [''https://ex.com/a'' \<mapsto> stored_page], auto_increment = 2 \<rparr>"

definition recrawl_same_hash :: CrawlerPageInsert where
  "recrawl_same_hash =
     \<lparr> p_final_url = ''https://ex.com/a'',
       p_requested_url_original = Some ''https://ex.com/a'',
       p_status_code = Some 200,
       p_crawl_status = OK,
       p_redirect_chain = None,
       p_html_content = Some ''<html><body><p>old</p>  </body></html>'',
       p_clean_html = Some ''<p>old</p>  '',
       p_markdown = Some ''new markdown'',
       p_nav_structure = None,
       p_title = Some ''New title'',
       p_h1 = Some ''Old'',
       p_meta_description = None,
       p_word_count = Some 1,
       p_content_hash = Some ''3549ff4940d543a98e2659792113dce9'',
       p_fetch_mode = Some playwright,
       p_extraction_method = Some ''fallback'',
       p_junk_score = Some (1 / 2),
       p_sitemap_type_hint = None,
       p_last_error = None,
       p_run_id = Some ''run-2'' \<rparr>"

lemma on_dup_unchanged:
  "row_id (on_duplicate_key_update now v r) = row_id r"
  "final_url (on_duplicate_key_update now v r) = final_url r"
  "requested_url_original (on_duplicate_key_update now v r) = requested_url_original r"
  "markdown_enhanced (on_duplicate_key_update now v r) = markdown_enhanced r"
  "nav_structure (on_duplicate_key_update now v r) = nav_structure r"
  "structural_stats (on_duplicate_key_update now v r) = structural_stats r"
  by (simp_all add: on_duplicate_key_update_def Let_def)

lemma on_dup_content:
  "html_content (on_duplicate_key_update now v r) =
     (if hash_changed (p_content_hash v) (content_hash r) then p_html_content v else html_content r)"
  "clean_html (on_duplicate_key_update now v r) =
     (if hash_changed (p_content_hash v) (content_hash r) then p_clean_html v else clean_html r)"
  "content_hash (on_duplicate_key_update now v r) = COALESCE (p_content_hash v) (content_hash r)"
  by (simp_all add: on_duplicate_key_update_def Let_def)


lemma on_dup_coalesce:
  "markdown (on_duplicate_key_update now v r) = COALESCE (p_markdown v) (markdown r)"
  "title (on_duplicate_key_update now v r) = COALESCE (p_title v) (title r)"
  "h1 (on_duplicate_key_update now v r) = COALESCE (p_h1 v) (h1 r)"
  "meta_description (on_duplicate_key_update now v r) = COALESCE (p_meta_description v) (meta_description r)"
  "word_count (on_duplicate_key_update now v r) = COALESCE (p_word_count v) (word_count r)"
  "extraction_method (on_duplicate_key_update now v r) = COALESCE (p_extraction_method v) (extraction_method r)"
  "junk_score (on_duplicate_key_update now v r) = COALESCE (p_junk_score v) (junk_score r)"
  "sitemap_type_hint (on_duplicate_key_update now v r) = COALESCE (p_sitemap_type_hint v) (sitemap_type_hint r)"
  by (simp_all add: on_duplicate_key_update_def Let_def)

lemma params_fields:
  "p_content_hash (params page) = or_null_str (p_content_hash page)"
  "p_html_content (params page) = or_null_str (p_html_content page)"
  "p_clean_html (params page) = or_null_str (p_clean_html page)"
  "p_title (params page) = or_null_str (p_title page)"
  "p_h1 (params page) = or_null_str (p_h1 page)"
  "p_meta_description (params page) = or_null_str (p_meta_description page)"
  "p_word_count (params page) = Some (or_zero (p_word_count page))"
  "p_extraction_method (params page) = or_null_str (p_extraction_method page)"
  "p_junk_score (params page) = or_null_rat (p_junk_score page)"
  "p_sitemap_type_hint (params page) = or_null_str (p_sitemap_type_hint page)"
  "p_markdown (params page) = or_null_str (p_markdown page)"
  "p_final_url (params page) = p_final_url page"
  "p_crawl_status (params page) = p_crawl_status page"
  "p_status_code (params page) = or_null_int (p_status_code page)"
  "p_redirect_chain (params page) = p_redirect_chain page"
  "p_fetch_mode (params page) = p_fetch_mode page"
  "p_last_error (params page) = or_null_str (p_last_error page)"
  "p_run_id (params page) = or_null_str (p_run_id page)"
  by (simp_all add: params_def)


text \<open>
  Claim C1, as the code has it.  An upsert that hits an existing row and carries a
  \<open>content_hash\<close> equal to the stored one leaves \<open>html_content\<close> and
  \<open>clean_html\<close> as they are, and with them \<open>content_hash\<close>, \<open>id\<close>,
  \<open>final_url\<close>, \<open>requested_url_original\<close>, \<open>markdown_enhanced\<close>,
  \<open>nav_structure\<close> and \<open>structural_stats\<close>; and whenever an upsert changes
  \<open>html_content\<close> or \<open>clean_html\<close>, the new \<open>content_hash\<close> is present,
  non-empty and differs from the stored one.  (The other columns are written from the new
  data: see \<open>on_dup_always\<close> and \<open>on_dup_coalesce\<close>.)
\<close>

theorem upsertPage_hash_gate:
  assumes hit: "pages db (p_final_url page) = Some r"
  shows "\<exists>r'. pages (upsertPage now page db) (p_final_url page) = Some r' \<and>
           (p_content_hash page = content_hash r \<longrightarrow>
              html_content r' = html_content r \<and> clean_html r' = clean_html r \<and>
              content_hash r' = content_hash r \<and> row_id r' = row_id r \<and>
              final_url r' = final_url r \<and>
              requested_url_original r' = requested_url_original r \<and>
              markdown_enhanced r' = markdown_enhanced r \<and>
              nav_structure r' = nav_structure r \<and>
              structural_stats r' = structural_stats r) \<and>
           (html_content r' \<noteq> html_content r \<or> clean_html r' \<noteq> clean_html r \<longrightarrow>
              (\<exists>h. p_content_hash page = Some h \<and> h \<noteq> [] \<and> content_hash r \<noteq> Some h))"
proof -
  let ?r' = "on_duplicate_key_update now (params page) r"
  have stored: "pages (upsertPage now page db) (p_final_url page) = Some ?r'"
    using hit by (rule upsertPage_existing)
  have same: "p_content_hash page = content_hash r \<Longrightarrow>
      \<not> hash_changed (or_null_str (p_content_hash page)) (content_hash r)"
    by (cases "content_hash r") (simp_all add: hash_changed_def or_null_str_def)
  have keep: "p_content_hash page = content_hash r \<Longrightarrow>
      COALESCE (or_null_str (p_content_hash page)) (content_hash r) = content_hash r"
    by (cases "content_hash r") (simp_all add: COALESCE_def or_null_str_def)
  have only: "hash_changed (or_null_str (p_content_hash page)) (content_hash r) \<Longrightarrow>
      \<exists>h. p_content_hash page = Some h \<and> h \<noteq> [] \<and> content_hash r \<noteq> Some h"
    by (cases "p_content_hash page")
       (auto simp add: hash_changed_def or_null_str_def split: if_splits)
  show ?thesis
    using stored same keep only
    by (auto simp add: on_dup_unchanged on_dup_content params_fields split: if_splits)
qed

theorem upsertPage_hash_gate_witness:
  "pages stored_db (p_final_url recrawl_same_hash) = Some stored_page \<and>
   p_content_hash recrawl_same_hash = content_hash stored_page \<and>
   (\<exists>r'. pages (upsertPage 20 recrawl_same_hash stored_db) ''https://ex.com/a'' = Some r' \<and>
      html_content r' = Some ''<html><body><p>old</p></body></html>'' \<and>
      clean_html r' = Some ''<p>old</p>'' \<and>
      content_hash r' = Some ''3549ff4940d543a98e2659792113dce9'')"
proof -
  have hit: "pages stored_db (p_final_url recrawl_same_hash) = Some stored_page"
    by (simp add: stored_db_def recrawl_same_hash_def)
  have same: "p_content_hash recrawl_same_hash = content_hash stored_page"
    by (simp add: recrawl_same_hash_def stored_page_def)
  from upsertPage_hash_gate [OF hit, of 20] same
  obtain r' where
    "pages (upsertPage 20 recrawl_same_hash stored_db) (p_final_url recrawl_same_hash) = Some r'"
    "html_content r' = html_content stored_page"
    "clean_html r' = clean_html stored_page"
    "content_hash r' = content_hash stored_page"
    by blast
  then have "pages (upsertPage 20 recrawl_same_hash stored_db) ''https://ex.com/a'' = Some r' \<and>
      html_content r' = Some ''<html><body><p>old</p></body></html>'' \<and>
      clean_html r' = Some ''<p>old</p>'' \<and>
      content_hash r' = Some ''3549ff4940d543a98e2659792113dce9''"
    by (simp add: recrawl_same_hash_def stored_page_def)
  with hit same show ?thesis by blast
qed


text \<open>
  Claim C1 as stated says that only \<open>last_crawled_at\<close>, \<open>run_id\<close> and
  \<open>status_code\<close> may change on such an upsert.  Here the hashes are equal and
  \<open>title\<close>, \<open>fetch_mode\<close> and \<open>markdown\<close> change.
\<close>

theorem upsertPage_frame_counterexample:
  "pages stored_db (p_final_url recrawl_same_hash) = Some stored_page \<and>
   p_content_hash recrawl_same_hash = content_hash stored_page \<and>
   title (the (pages (upsertPage 20 recrawl_same_hash stored_db) ''https://ex.com/a''))
     = Some ''New title'' \<and>
   title stored_page = Some ''Old title'' \<and>
   fetch_mode (the (pages (upsertPage 20 recrawl_same_hash stored_db) ''https://ex.com/a''))
     = Some playwright \<and>
   fetch_mode stored_page = Some cheerio \<and>
   markdown (the (pages (upsertPage 20 recrawl_same_hash stored_db) ''https://ex.com/a''))
     = Some ''new markdown'' \<and>
   markdown stored_page = Some ''old''"
  by (simp add: upsertPage_def params_def on_duplicate_key_update_def Let_def COALESCE_def
      or_null_str_def or_null_int_def or_null_rat_def or_zero_def hash_changed_def
      stored_db_def recrawl_same_hash_def stored_page_def)


subsection \<open>The COALESCE columns\<close>

text \<open>
  \<open>takes_or_keeps new falsy stored result\<close>: the column keeps its stored value when no
  new value is given, and takes a new value that is given and is not JavaScript's falsy
  one (the empty string, zero).
\<close>

definition takes_or_keeps :: "'a option \<Rightarrow> 'a \<Rightarrow> 'a option \<Rightarrow> 'a option \<Rightarrow> bool" where
  "takes_or_keeps new falsy stored result =
     (case new of None \<Rightarrow> result = stored | Some x \<Rightarrow> x \<noteq> falsy \<longrightarrow> result = Some x)"

lemma takes_or_keeps_str:
  "takes_or_keeps new [] stored (COALESCE (or_null_str new) stored)"
  by (cases new) (simp_all add: takes_or_keeps_def COALESCE_def or_null_str_def)

lemma takes_or_keeps_rat:
  "takes_or_keeps new 0 stored (COALESCE (or_null_rat new) stored)"
  by (cases new) (simp_all add: takes_or_keeps_def COALESCE_def or_null_rat_def)

text \<open>
  The page data of \<open>failedRequestHandler\<close> (src/core/crawler.ts): an \<open>ERROR\<close> page
  with \<open>last_error\<close> and no content or metadata.  \<open>normalized\<close> is
  \<open>normalizeUrl(url)\<close>.
\<close>

definition failedRequestHandler_pageData :: "string \<Rightarrow> string \<Rightarrow> string \<Rightarrow> string \<Rightarrow> CrawlerPageInsert" where
  "failedRequestHandler_pageData normalized req_url message runId =
     \<lparr> p_final_url = normalized,
       p_requested_url_original = Some req_url,
       p_status_code = None,
       p_crawl_status = ERROR,
       p_redirect_chain = None,
       p_html_content = None,
       p_clean_html = None,
       p_markdown = None,
       p_nav_structure = None,
       p_title = None,
       p_h1 = None,
       p_meta_description = None,
       p_word_count = None,
       p_content_hash = None,
       p_fetch_mode = None,
       p_extraction_method = None,
       p_junk_score = None,
       p_sitemap_type_hint = None,
       p_last_error = Some message,
       p_run_id = Some runId \<rparr>"

definition empty_nav :: NavStructure where
  "empty_nav =
     \<lparr> primary_nav = [], footer_nav = [], utility_header = [], language_switcher = [],
       breadcrumb = [], content_links = [],
       nav_stats = \<lparr> faq_modules = 0, toc_sections = 0, breadcrumbs = 0, template_ctas = 0,
                     accordions = 0, testimonials = 0, author_bios = 0,
                     related_posts_count = 0 \<rparr> \<rparr>"


text \<open>
  What the statement does with the columns of its \<open>COALESCE\<close> block on a
  conflicting upsert: \<open>title\<close>, \<open>h1\<close>, \<open>meta_description\<close>,
  \<open>extraction_method\<close>, \<open>junk_score\<close>, \<open>content_hash\<close> and
  \<open>sitemap_type_hint\<close> keep the stored value when no new value is given and take a
  new value that is not falsy.  \<open>word_count\<close> is bound as \<open>page.word_count || 0\<close>,
  which is never \<open>NULL\<close>, so the column always takes the bound number.
  \<open>nav_structure\<close> and \<open>structural_stats\<close> are not among the statement's columns,
  and \<open>params\<close> does not bind the \<open>nav_structure\<close> the crawler passes.
\<close>

lemma upsertPage_coalesce_columns:
  assumes hit: "pages db (p_final_url page) = Some r"
  shows "\<exists>r'. pages (upsertPage now page db) (p_final_url page) = Some r' \<and>
           takes_or_keeps (p_title page) [] (title r) (title r') \<and>
           takes_or_keeps (p_h1 page) [] (h1 r) (h1 r') \<and>
           takes_or_keeps (p_meta_description page) [] (meta_description r) (meta_description r') \<and>
           takes_or_keeps (p_extraction_method page) [] (extraction_method r) (extraction_method r') \<and>
           takes_or_keeps (p_junk_score page) 0 (junk_score r) (junk_score r') \<and>
           takes_or_keeps (p_content_hash page) [] (content_hash r) (content_hash r') \<and>
           takes_or_keeps (p_sitemap_type_hint page) [] (sitemap_type_hint r) (sitemap_type_hint r') \<and>
           word_count r' = Some (or_zero (p_word_count page)) \<and>
           nav_structure r' = nav_structure r \<and>
           structural_stats r' = structural_stats r"
proof -
  let ?r' = "on_duplicate_key_update now (params page) r"
  have stored: "pages (upsertPage now page db) (p_final_url page) = Some ?r'"
    using hit by (rule upsertPage_existing)
  have wc: "word_count ?r' = Some (or_zero (p_word_count page))"
    by (simp add: on_dup_coalesce params_fields COALESCE_def)
  show ?thesis
    using stored wc
    by (simp add: on_dup_coalesce on_dup_content on_dup_unchanged params_fields
        takes_or_keeps_str takes_or_keeps_rat)
qed


text \<open>
  Claim C5 does not hold of the code, in two of the ten columns it lists.  The stored
  row has \<open>word_count = 500\<close> and no \<open>nav_structure\<close>.  The \<open>ERROR\<close> re-crawl
  of \<open>failedRequestHandler\<close> supplies no \<open>word_count\<close>, and the stored 500
  becomes 0 where the claim keeps it.  A re-crawl that carries a \<open>nav_structure\<close>
  leaves the column \<open>NULL\<close> where the claim takes the new value.
\<close>

theorem upsertPage_coalesce_divergence:
  "p_word_count (failedRequestHandler_pageData ''https://ex.com/a'' ''https://ex.com/a''
      ''timeout'' ''run-3'') = None \<and>
   word_count stored_page = Some 500 \<and>
   word_count (the (pages (upsertPage 30
      (failedRequestHandler_pageData ''https://ex.com/a'' ''https://ex.com/a''
         ''timeout'' ''run-3'') stored_db) ''https://ex.com/a'')) = Some 0 \<and>
   p_nav_structure (recrawl_same_hash \<lparr> p_nav_structure := Some empty_nav \<rparr>) = Some empty_nav \<and>
   nav_structure (the (pages (upsertPage 30
      (recrawl_same_hash \<lparr> p_nav_structure := Some empty_nav \<rparr>) stored_db)
      ''https://ex.com/a'')) = None"
  by (simp add: upsertPage_def params_def on_duplicate_key_update_def Let_def COALESCE_def
      or_null_str_def or_null_int_def or_null_rat_def or_zero_def hash_changed_def
      stored_db_def recrawl_same_hash_def stored_page_def failedRequestHandler_pageData_def)


section \<open>The crawler's request handlers (src/core/crawler.ts)\<close>

text \<open>
  \<open>PageMetadata\<close> (src/parsers/metadataExtractor.ts) and \<open>ExtractionResult\<close>
  (src/extraction/contentExtractor.ts), with the fields the handler reads.  The HTML of
  an extraction result is a string here, and a DOM where the extractor itself is
  modelled.
\<close>

record PageMetadata =
  md_title :: "string option"
  md_h1 :: "string option"
  md_metaDescription :: "string option"

record 'h ExtractionResult =
  r_cleanHtml :: 'h
  r_extractionMethod :: ExtractionMethod
  r_wordCount :: int
  r_success :: bool

text \<open>
  What \<open>requestHandler\<close> has in hand once the calls into the libraries have returned:
  the request's URLs and the response, the results of \<open>extractMetadata\<close>,
  \<open>extractContent\<close>, \<open>htmlToMarkdown\<close> (on the extracted clean HTML),
  \<open>calculateJunkScore\<close> and \<open>extractNavStructure\<close>, and the run's id.
\<close>

record RequestContext =
  requestedUrl :: string
  finalUrl :: string
  statusCode :: int
  sitemapTypeHint :: "string option"
  htmlContent :: string
  metadata :: PageMetadata
  extraction :: "string ExtractionResult"
  htmlToMarkdown_result :: string
  junkScore :: rat
  navStructure :: NavStructure
  runId :: string

text \<open>
  The handler's \<open>crawlStatus\<close>, a variable of type \<open>'OK' | 'NOT_FOUND' | 'ERROR'\<close>.
\<close>

definition crawlStatus_of :: "int \<Rightarrow> CrawlStatus" where
  "crawlStatus_of code =
     (if code = 404 \<or> code = 410 then NOT_FOUND
      else if code \<ge> 400 then ERROR
      else OK)"

text \<open>\<open>a || b\<close> on strings.\<close>

definition or_else :: "string \<Rightarrow> string \<Rightarrow> string" where
  "or_else a b = (if a = [] then b else a)"

definition requestHandler_pageData :: "RequestContext \<Rightarrow> CrawlerPageInsert" where
  "requestHandler_pageData ctx =
     (let redirectChain =
            (if requestedUrl ctx \<noteq> finalUrl ctx then [requestedUrl ctx, finalUrl ctx] else []);
          crawlStatus = crawlStatus_of (statusCode ctx);
          markdown = (if r_success (extraction ctx) then htmlToMarkdown_result ctx else []);
          contentHash = hashHtmlContent (or_else (r_cleanHtml (extraction ctx)) (htmlContent ctx))
      in \<lparr> p_final_url = finalUrl ctx,
           p_requested_url_original = Some (requestedUrl ctx),
           p_status_code = Some (statusCode ctx),
           p_crawl_status = crawlStatus,
           p_redirect_chain = (if redirectChain \<noteq> [] then Some redirectChain else None),
           p_html_content = Some (htmlContent ctx),
           p_clean_html = Some (r_cleanHtml (extraction ctx)),
           p_markdown = Some markdown,
           p_nav_structure = Some (navStructure ctx),
           p_title = or_null_str (md_title (metadata ctx)),
           p_h1 = or_null_str (md_h1 (metadata ctx)),
           p_meta_description = or_null_str (md_metaDescription (metadata ctx)),
           p_word_count = Some (r_wordCount (extraction ctx)),
           p_content_hash = Some contentHash,
           p_fetch_mode = Some cheerio,
           p_extraction_method = Some (r_extractionMethod (extraction ctx)),
           p_junk_score = Some (junkScore ctx),
           p_sitemap_type_hint = or_null_str (sitemapTypeHint ctx),
           p_last_error = None,
           p_run_id = Some (runId ctx) \<rparr>)"

text \<open>
  The handlers' effect on the table.  (The alias row, the counters and the log are not
  part of the model.)
\<close>

definition requestHandler :: "nat \<Rightarrow> RequestContext \<Rightarrow> crawler_db \<Rightarrow> crawler_db" where
  "requestHandler now ctx db = upsertPage now (requestHandler_pageData ctx) db"

definition failedRequestHandler ::
  "nat \<Rightarrow> string \<Rightarrow> string \<Rightarrow> string \<Rightarrow> string \<Rightarrow> crawler_db \<Rightarrow> crawler_db" where
  "failedRequestHandler now normalized req_url message rid db =
     upsertPage now (failedRequestHandler_pageData normalized req_url message rid) db"

subsection \<open>The stored content hash\<close>

text \<open>The tables a crawl can leave: the handlers, run from the empty table.\<close>

inductive crawled :: "crawler_db \<Rightarrow> bool" where
  empty_table: "crawled \<lparr> pages = Map.empty, auto_increment = 1 \<rparr>"
| page_crawled: "crawled db \<Longrightarrow> crawled (requestHandler now ctx db)"
| request_failed: "crawled db \<Longrightarrow> crawled (failedRequestHandler now normalized req_url message rid db)"

text \<open>
  The string a stored hash was computed from: \<open>extraction.cleanHtml || htmlContent\<close>,
  which is the stored \<open>clean_html\<close>, or the stored \<open>html_content\<close> when
  \<open>clean_html\<close> is \<open>NULL\<close>.
\<close>

definition hash_source :: "CrawlerPage \<Rightarrow> string option" where
  "hash_source r = (case clean_html r of Some c \<Rightarrow> Some c | None \<Rightarrow> html_content r)"

definition hash_ok :: "CrawlerPage \<Rightarrow> bool" where
  "hash_ok r =
     (case content_hash r of
        None \<Rightarrow> True
      | Some h \<Rightarrow> h \<noteq> [] \<and>
          (case hash_source r of None \<Rightarrow> False | Some s \<Rightarrow> h = hashHtmlContent s))"

definition page_hash_ok :: "CrawlerPageInsert \<Rightarrow> bool" where
  \<comment> \<open>the same of the bound parameters\<close>
  "page_hash_ok v =
     (case p_content_hash v of
        None \<Rightarrow> True
      | Some h \<Rightarrow> h \<noteq> [] \<and>
          (case (case p_clean_html v of Some c \<Rightarrow> Some c | None \<Rightarrow> p_html_content v) of
             None \<Rightarrow> False | Some s \<Rightarrow> h = hashHtmlContent s))"

lemma hashHtmlContent_eq_Nil: "hashHtmlContent s = [] \<longleftrightarrow> s = []"
  by (simp add: hashHtmlContent_def md5Hash_nonempty)

lemma page_hash_ok_requestHandler: "page_hash_ok (params (requestHandler_pageData ctx))"
  by (simp add: page_hash_ok_def params_fields requestHandler_pageData_def Let_def
      or_null_str_def or_else_def hashHtmlContent_eq_Nil)

lemma page_hash_ok_failed:
  "page_hash_ok (params (failedRequestHandler_pageData n u m rid))"
  by (simp add: page_hash_ok_def params_fields failedRequestHandler_pageData_def or_null_str_def)

lemma hash_ok_insert: "page_hash_ok v \<Longrightarrow> hash_ok (insert_row i now v)"
  by (auto simp add: page_hash_ok_def hash_ok_def hash_source_def insert_row_def
      split: option.splits)

lemma hash_ok_update:
  assumes "page_hash_ok v" and "hash_ok r"
  shows "hash_ok (on_duplicate_key_update now v r)"
proof (cases "hash_changed (p_content_hash v) (content_hash r)")
  case True
  then show ?thesis
    using assms(1)
    by (auto simp add: hash_ok_def hash_source_def page_hash_ok_def on_dup_content COALESCE_def
        hash_changed_def split: option.splits)
next
  case False
  then have "COALESCE (p_content_hash v) (content_hash r) = content_hash r"
    using assms(1)
    by (auto simp add: COALESCE_def hash_changed_def page_hash_ok_def split: option.splits)
  moreover have "hash_source (on_duplicate_key_update now v r) = hash_source r"
    using False by (simp add: hash_source_def on_dup_content split: option.splits)
  ultimately show ?thesis
    using assms(2) by (simp add: hash_ok_def on_dup_content split: option.splits)
qed

lemma hash_ok_upsertPage:
  assumes "page_hash_ok (params page)"
    and "\<And>u r. pages db u = Some r \<Longrightarrow> hash_ok r"
    and "pages (upsertPage now page db) u = Some r"
  shows "hash_ok r"
  using assms
  by (auto simp add: upsertPage_def Let_def hash_ok_insert hash_ok_update
      split: option.splits if_splits)

lemma crawled_hash_ok: "crawled db \<Longrightarrow> pages db u = Some r \<Longrightarrow> hash_ok r"
proof (induction arbitrary: u r rule: crawled.induct)
  case empty_table
  then show ?case by simp
next
  case (page_crawled db now ctx)
  show ?case
    using page_hash_ok_requestHandler page_crawled.IH page_crawled.prems
    unfolding requestHandler_def by (rule hash_ok_upsertPage)
next
  case (request_failed db now normalized req_url message rid)
  show ?case
    using page_hash_ok_failed request_failed.IH request_failed.prems
    unfolding failedRequestHandler_def by (rule hash_ok_upsertPage)
qed

text \<open>
  Claim C3, as the code has it.  In every table a crawl leaves, a row's non-null
  \<open>content_hash\<close> is the MD5 of the whitespace-normalized stored \<open>clean_html\<close>
  when that is not \<open>NULL\<close>, and of the whitespace-normalized stored
  \<open>html_content\<close> when it is.
\<close>

theorem content_hash_of_stored_html:
  assumes "crawled db" and "pages db u = Some r" and "content_hash r = Some h"
  shows "\<exists>s. (case clean_html r of Some c \<Rightarrow> Some c | None \<Rightarrow> html_content r) = Some s \<and>
             h = md5Hash (trim (collapse_ws s))"
proof -
  have "hash_ok r" using assms(1,2) by (rule crawled_hash_ok)
  with assms(3) obtain s where s: "hash_source r = Some s" "h = hashHtmlContent s" "h \<noteq> []"
    by (auto simp add: hash_ok_def split: option.splits)
  from s(2,3) have "h = md5Hash (trim (collapse_ws s))"
    by (auto simp add: hashHtmlContent_def split: if_splits)
  with s(1) show ?thesis by (auto simp add: hash_source_def)
qed


text \<open>Concrete crawls.\<close>

definition empty_table_db :: crawler_db where
  "empty_table_db = \<lparr> pages = Map.empty, auto_increment = 1 \<rparr>"

definition crawl_old :: RequestContext where
  "crawl_old =
     \<lparr> requestedUrl = ''https://ex.com/a'',
       finalUrl = ''https://ex.com/a'',
       statusCode = 200,
       sitemapTypeHint = Some ''post'',
       htmlContent = ''<html><body><p>old</p></body></html>'',
       metadata = \<lparr> md_title = Some ''Old title'', md_h1 = Some ''Old'',
                    md_metaDescription = None \<rparr>,
       extraction = \<lparr> r_cleanHtml = ''<p>old</p>'', r_extractionMethod = ''fallback'',
                      r_wordCount = 1, r_success = True \<rparr>,
       htmlToMarkdown_result = ''old'',
       junkScore = 0,
       navStructure = empty_nav,
       runId = ''run-1'' \<rparr>"

definition crawl_nav_only :: RequestContext where
  "crawl_nav_only =
     \<lparr> requestedUrl = ''https://ex.com/n'',
       finalUrl = ''https://ex.com/n'',
       statusCode = 200,
       sitemapTypeHint = None,
       htmlContent = ''<nav>menu</nav>'',
       metadata = \<lparr> md_title = None, md_h1 = None, md_metaDescription = None \<rparr>,
       extraction = \<lparr> r_cleanHtml = [], r_extractionMethod = ''fallback'',
                      r_wordCount = 0, r_success = True \<rparr>,
       htmlToMarkdown_result = [],
       junkScore = 1,
       navStructure = empty_nav,
       runId = ''run-1'' \<rparr>"

lemma md5Hash_p_old: "md5Hash ''<p>old</p>'' = ''3549ff4940d543a98e2659792113dce9''"
  by code_simp

lemma md5Hash_nav_menu: "md5Hash ''<nav>menu</nav>'' = ''168582dfa87e99cf2c3440e56b97b383''"
  by code_simp

lemma hashHtmlContent_p_old:
  "hashHtmlContent ''<p>old</p>'' = ''3549ff4940d543a98e2659792113dce9''"
  by (simp add: hashHtmlContent_def trim_def is_ws_def md5Hash_p_old)

lemma hashHtmlContent_nav_menu:
  "hashHtmlContent ''<nav>menu</nav>'' = ''168582dfa87e99cf2c3440e56b97b383''"
  by (simp add: hashHtmlContent_def trim_def is_ws_def md5Hash_nav_menu)

lemma stored_after_crawl_old:
  "pages (requestHandler 1 crawl_old empty_table_db) ''https://ex.com/a'' =
     Some (insert_row 1 1 (params (requestHandler_pageData crawl_old)))"
  by (simp add: requestHandler_def upsertPage_def Let_def params_fields empty_table_db_def
      requestHandler_pageData_def crawl_old_def)

theorem content_hash_of_stored_html_witness:
  "crawled (requestHandler 1 crawl_old empty_table_db) \<and>
   (\<exists>r. pages (requestHandler 1 crawl_old empty_table_db) ''https://ex.com/a'' = Some r \<and>
      content_hash r = Some ''3549ff4940d543a98e2659792113dce9'' \<and>
      clean_html r = Some ''<p>old</p>'' \<and>
      ''3549ff4940d543a98e2659792113dce9'' = md5Hash (trim (collapse_ws ''<p>old</p>'')))"
proof -
  let ?db = "requestHandler 1 crawl_old empty_table_db"
  let ?r = "insert_row 1 1 (params (requestHandler_pageData crawl_old))"
  have c: "crawled ?db"
    unfolding empty_table_db_def by (intro crawled.intros)
  have p: "pages ?db ''https://ex.com/a'' = Some ?r"
    by (rule stored_after_crawl_old)
  have h: "content_hash ?r = Some ''3549ff4940d543a98e2659792113dce9''"
    by (simp add: insert_row_def params_fields requestHandler_pageData_def crawl_old_def
        Let_def or_else_def hashHtmlContent_p_old or_null_str_def)
  have cl: "clean_html ?r = Some ''<p>old</p>''"
    by (simp add: insert_row_def params_fields requestHandler_pageData_def crawl_old_def
        Let_def or_null_str_def)
  from content_hash_of_stored_html [OF c p h]
  obtain s where "(case clean_html ?r of Some c \<Rightarrow> Some c | None \<Rightarrow> html_content ?r) = Some s"
    and "''3549ff4940d543a98e2659792113dce9'' = md5Hash (trim (collapse_ws s))"
    by blast
  with cl
  have "''3549ff4940d543a98e2659792113dce9'' = md5Hash (trim (collapse_ws ''<p>old</p>''))"
    by simp
  with c p h cl show ?thesis by blast
qed

text \<open>
  Claim C3 as stated fails for a page whose extraction yields empty clean HTML, such as
  a page whose body is one \<open>nav\<close> element on a host whose override removes
  \<open>nav\<close> (\<open>extractContent_nav_only\<close> below): the hash is taken of the raw
  HTML.  The stored \<open>clean_html\<close> is \<open>NULL\<close>, the stored hash is not, and it
  is not the MD5 of the empty string either.
\<close>

theorem content_hash_counterexample:
  "crawled (requestHandler 1 crawl_nav_only empty_table_db) \<and>
   clean_html (the (pages (requestHandler 1 crawl_nav_only empty_table_db) ''https://ex.com/n''))
     = None \<and>
   html_content (the (pages (requestHandler 1 crawl_nav_only empty_table_db) ''https://ex.com/n''))
     = Some ''<nav>menu</nav>'' \<and>
   content_hash (the (pages (requestHandler 1 crawl_nav_only empty_table_db) ''https://ex.com/n''))
     = Some ''168582dfa87e99cf2c3440e56b97b383'' \<and>
   md5Hash (trim (collapse_ws [])) = ''d41d8cd98f00b204e9800998ecf8427e''"
proof -
  let ?db = "requestHandler 1 crawl_nav_only empty_table_db"
  have c: "crawled ?db"
    unfolding empty_table_db_def by (intro crawled.intros)
  have p: "pages ?db ''https://ex.com/n'' =
      Some (insert_row 1 1 (params (requestHandler_pageData crawl_nav_only)))"
    by (simp add: requestHandler_def upsertPage_def Let_def params_fields empty_table_db_def
        requestHandler_pageData_def crawl_nav_only_def)
  have r: "clean_html (insert_row 1 1 (params (requestHandler_pageData crawl_nav_only))) = None"
     "html_content (insert_row 1 1 (params (requestHandler_pageData crawl_nav_only)))
        = Some ''<nav>menu</nav>''"
     "content_hash (insert_row 1 1 (params (requestHandler_pageData crawl_nav_only)))
        = Some ''168582dfa87e99cf2c3440e56b97b383''"
    by (simp_all add: insert_row_def params_fields requestHandler_pageData_def
        crawl_nav_only_def Let_def or_else_def hashHtmlContent_nav_menu or_null_str_def)
  have e: "md5Hash (trim (collapse_ws [])) = ''d41d8cd98f00b204e9800998ecf8427e''"
    by (simp add: trim_def md5Hash_empty_string)
  from c p r e show ?thesis by simp
qed

subsection \<open>Soft-404 patterns (src/config/constants.ts) and the crawl status\<close>

text \<open>
  The patterns are literals joined by \<open>.*\<close>, with the flag \<open>i\<close>: a pattern is a
  list of atoms, \<open>.\<close> matches any character but a line terminator, and letters are
  compared in lower case.
\<close>

definition to_lower :: "char \<Rightarrow> char" where
  "to_lower c = (let n = of_char c :: nat in if 65 \<le> n \<and> n \<le> 90 then char_of (n + 32) else c)"

datatype rx_atom = Lit string | DotStar


fun strip_prefix_ci :: "string \<Rightarrow> string \<Rightarrow> string option" where
  "strip_prefix_ci [] s = Some s"
| "strip_prefix_ci (p # ps) [] = None"
| "strip_prefix_ci (p # ps) (c # cs) =
     (if to_lower c = to_lower p then strip_prefix_ci ps cs else None)"




definition SOFT_404_BODY_PATTERNS :: "rx_atom list list" where
  "SOFT_404_BODY_PATTERNS =
     [ [Lit ''sorry'', DotStar, Lit ''page'', DotStar, Lit ''not'', DotStar, Lit ''found''],
       [Lit ''the'', DotStar, Lit ''page'', DotStar, Lit ''you'', DotStar, Lit ''requested'',
        DotStar, Lit ''could'', DotStar, Lit ''not'', DotStar, Lit ''be'', DotStar, Lit ''found''],
       [Lit ''we'', DotStar, Lit ''can'', DotStar, Lit ''t'', DotStar, Lit ''find'', DotStar,
        Lit ''that'', DotStar, Lit ''page''],
       [Lit ''404'', DotStar, Lit ''error''] ]"







section \<open>Structural markers in Markdown (src/extraction/enhancedMarkdownConverter.ts)\<close>

text \<open>
  \<open>.replace(/\n{3,}/g, '\n\n')\<close>: every maximal run of three or more line feeds
  becomes two; shorter runs stay.
\<close>

abbreviation (input) newline :: char where
  "newline \<equiv> CHR 0x0A"

function collapse_newlines :: "string \<Rightarrow> string" where
  "collapse_newlines [] = []"
| "collapse_newlines (c # cs) =
     (if c = newline
      then (let run = c # takeWhile (\<lambda>x. x = newline) cs
            in (if length run \<ge> 3 then [newline, newline] else run)
               @ collapse_newlines (dropWhile (\<lambda>x. x = newline) cs))
      else c # collapse_newlines cs)"
  by pat_completeness auto
termination
  by (relation "measure length") (auto simp add: less_Suc_eq_le length_dropWhile_le)

text \<open>
  \<open>STRUCT_MARKER_REGEX = /<!-- STRUCT:[A-Z_]+:[A-Z_]+ -->/g\<close>
  (src/types/enhancedMarkdown.types.ts).  \<open>match_marker s\<close> is the rest of \<open>s\<close> after
  a match at its start.  The greedy \<open>[A-Z_]+\<close> takes the whole run of such characters,
  and no shorter run can match, since what follows it must be \<open>:\<close> or a space.
  \<open>strip_markers\<close> is \<open>.replace(STRUCT_MARKER_REGEX, '')\<close>: left to right, each
  match removed, the scan resuming after it.
\<close>

fun strip_prefix :: "string \<Rightarrow> string \<Rightarrow> string option" where
  "strip_prefix [] s = Some s"
| "strip_prefix (p # ps) [] = None"
| "strip_prefix (p # ps) (c # cs) = (if c = p then strip_prefix ps cs else None)"

definition is_marker_char :: "char \<Rightarrow> bool" where
  "is_marker_char c = ((65 \<le> (of_char c :: nat) \<and> (of_char c :: nat) \<le> 90) \<or> c = CHR ''_'')"

definition match_marker :: "string \<Rightarrow> string option" where
  "match_marker s =
     (case strip_prefix ''<!-- STRUCT:'' s of
        None \<Rightarrow> None
      | Some r1 \<Rightarrow>
          if takeWhile is_marker_char r1 = [] then None
          else (case strip_prefix '':'' (dropWhile is_marker_char r1) of
                  None \<Rightarrow> None
                | Some r2 \<Rightarrow>
                    if takeWhile is_marker_char r2 = [] then None
                    else strip_prefix '' -->'' (dropWhile is_marker_char r2)))"

lemma strip_prefix_length: "strip_prefix p s = Some r \<Longrightarrow> length r + length p = length s"
  by (induction p s rule: strip_prefix.induct) (auto split: if_splits)

lemma match_marker_shorter: "match_marker s = Some r \<Longrightarrow> length r < length s"
proof -
  assume m: "match_marker s = Some r"
  then obtain r1 where r1: "strip_prefix ''<!-- STRUCT:'' s = Some r1"
    by (auto simp add: match_marker_def split: option.splits)
  from m r1 obtain r2 where r2: "strip_prefix '':'' (dropWhile is_marker_char r1) = Some r2"
    by (auto simp add: match_marker_def split: option.splits if_splits)
  from m r1 r2 have r: "strip_prefix '' -->'' (dropWhile is_marker_char r2) = Some r"
    by (auto simp add: match_marker_def split: option.splits if_splits)
  have "length r \<le> length (dropWhile is_marker_char r2)"
    using strip_prefix_length [OF r] by simp
  also have "\<dots> \<le> length r2" by (rule length_dropWhile_le)
  also have "\<dots> \<le> length (dropWhile is_marker_char r1)"
    using strip_prefix_length [OF r2] by simp
  also have "\<dots> \<le> length r1" by (rule length_dropWhile_le)
  also have "\<dots> < length s"
    using strip_prefix_length [OF r1] by simp
  finally show ?thesis .
qed

function strip_markers :: "string \<Rightarrow> string" where
  "strip_markers [] = []"
| "strip_markers (c # cs) =
     (case match_marker (c # cs) of
        Some rest \<Rightarrow> strip_markers rest
      | None \<Rightarrow> c # strip_markers cs)"
  by pat_completeness auto
termination
proof (relation "measure length")
  show "wf (measure length)" by simp
next
  fix c cs rest
  assume "match_marker (c # cs) = Some rest"
  then show "(rest, c # cs) \<in> measure length"
    using match_marker_shorter [of "c # cs" rest] by simp
next
  fix c cs
  show "(cs, c # cs) \<in> measure length" by simp
qed

text \<open>\<open>stripStructuralMarkers\<close>, as exported.\<close>

definition stripStructuralMarkers :: "string \<Rightarrow> string" where
  "stripStructuralMarkers md = trim (collapse_newlines (strip_markers md))"

text \<open>
  \<open>htmlToEnhancedMarkdown\<close>, from its step 4 on.  Steps 1 to 3 (structure detection,
  marker tags, Turndown) produce \<open>markedMarkdown\<close>, the argument here; the result's
  \<open>markdown\<close> is that string and \<open>plainMarkdown\<close> is computed from it.
\<close>

record EnhancedMarkdownResult =
  em_markdown :: string
  plainMarkdown :: string

definition htmlToEnhancedMarkdown :: "string \<Rightarrow> EnhancedMarkdownResult" where
  "htmlToEnhancedMarkdown markedMarkdown =
     (let plain = trim (strip_markers markedMarkdown);
          cleanedPlainMarkdown = trim (collapse_newlines plain)
      in \<lparr> em_markdown = markedMarkdown, plainMarkdown = cleanedPlainMarkdown \<rparr>)"

text \<open>
  The \<open>UPDATE\<close> of src/scripts/backfillEnhancedMarkdown.ts, the one place that writes
  \<open>markdown_enhanced\<close>: it stores \<open>plainMarkdown\<close> as \<open>markdown\<close> beside it.
\<close>

definition backfillEnhancedMarkdown_row ::
  "string \<Rightarrow> StructuralStats \<Rightarrow> CrawlerPage \<Rightarrow> CrawlerPage" where
  "backfillEnhancedMarkdown_row markedMarkdown stats r =
     (let result = htmlToEnhancedMarkdown markedMarkdown
      in r\<lparr> markdown := Some (plainMarkdown result),
            markdown_enhanced := Some (em_markdown result),
            structural_stats := Some stats \<rparr>)"

text \<open>
  The script's \<open>UPDATE\<close> on the table.  The rows it selects are those with a
  \<open>clean_html\<close> (all of them under \<open>--force-all\<close>, else those without a
  \<open>markdown_enhanced\<close>); \<open>markedMarkdown\<close> and \<open>stats\<close> are what the
  conversion makes of the row's \<open>clean_html\<close>, \<open>final_url\<close> and \<open>h1\<close>.
\<close>

definition backfillEnhancedMarkdown ::
  "string \<Rightarrow> string \<Rightarrow> StructuralStats \<Rightarrow> crawler_db \<Rightarrow> crawler_db" where
  "backfillEnhancedMarkdown u markedMarkdown stats db =
     (case pages db u of
        None \<Rightarrow> db
      | Some r \<Rightarrow>
          (case clean_html r of
             None \<Rightarrow> db
           | Some html \<Rightarrow>
               db\<lparr> pages := (pages db)(u \<mapsto> backfillEnhancedMarkdown_row markedMarkdown stats r) \<rparr>))"






















text \<open>
  A page that is one FAQ block, crawled and then backfilled: its enhanced Markdown
  starts and ends with a marker line.
\<close>

definition faq_only_markdown :: string where
  "faq_only_markdown =
     ''<!-- STRUCT:FAQ:START -->'' @ [newline] @ ''Q'' @ [newline] @ ''<!-- STRUCT:FAQ:END -->''"

definition faq_stats :: StructuralStats where
  "faq_stats =
     \<lparr> faq_modules = 1, toc_sections = 0, breadcrumbs = 0, template_ctas = 0,
       accordions = 0, testimonials = 0, author_bios = 0, related_posts_count = 0 \<rparr>"

definition backfilled_db :: crawler_db where
  "backfilled_db =
     backfillEnhancedMarkdown ''https://ex.com/a'' faq_only_markdown faq_stats
       (requestHandler 1 crawl_old empty_table_db)"

lemma backfilled_db_row:
  "pages backfilled_db ''https://ex.com/a'' =
     Some (backfillEnhancedMarkdown_row faq_only_markdown faq_stats
             (insert_row 1 1 (params (requestHandler_pageData crawl_old))))"
proof -
  let ?r0 = "insert_row 1 1 (params (requestHandler_pageData crawl_old))"
  have p: "pages (requestHandler 1 crawl_old empty_table_db) ''https://ex.com/a'' = Some ?r0"
    by (rule stored_after_crawl_old)
  have cl: "clean_html ?r0 = Some ''<p>old</p>''"
    by (simp add: insert_row_def params_fields requestHandler_pageData_def crawl_old_def
        Let_def or_null_str_def)
  show ?thesis
    unfolding backfilled_db_def backfillEnhancedMarkdown_def
    by (simp only: p cl option.case) simp
qed

lemma stripStructuralMarkers_faq_only: "stripStructuralMarkers faq_only_markdown = ''Q''"
  by (simp add: stripStructuralMarkers_def faq_only_markdown_def match_marker_def
      is_marker_char_def trim_def is_ws_def)



text \<open>
  Why the theorem speaks of the rows no page upsert has written since: an upsert that
  binds a \<open>markdown\<close> writes that column and has no \<open>markdown_enhanced\<close> to write.
  Here the backfilled page is crawled again.
\<close>

lemma markdown_rewritten_by_upsert:
  "markdown_enhanced (the (pages (upsertPage 20 recrawl_same_hash backfilled_db) ''https://ex.com/a''))
     = Some faq_only_markdown \<and>
   markdown (the (pages (upsertPage 20 recrawl_same_hash backfilled_db) ''https://ex.com/a''))
     = Some ''new markdown'' \<and>
   stripStructuralMarkers faq_only_markdown = ''Q''"
proof -
  have "pages backfilled_db (p_final_url recrawl_same_hash) =
      Some (backfillEnhancedMarkdown_row faq_only_markdown faq_stats
             (insert_row 1 1 (params (requestHandler_pageData crawl_old))))"
    using backfilled_db_row by (simp add: recrawl_same_hash_def)
  from upsertPage_existing [OF this, of 20]
  show ?thesis
    by (simp add: recrawl_same_hash_def on_dup_unchanged on_dup_coalesce params_fields
        COALESCE_def or_null_str_def backfillEnhancedMarkdown_row_def
        htmlToEnhancedMarkdown_def Let_def stripStructuralMarkers_faq_only)
qed


section \<open>The DOM\<close>

text \<open>
  The libraries (JSDOM, cheerio, Turndown's parser) turn an HTML string into a tree of
  nodes; the model starts from the tree.  An element has its tag name in lower case,
  its attributes and its child nodes.  An HTML string handed from one function to the
  next is the list of the nodes it serializes (an element's child nodes for its
  \<open>innerHTML\<close>), which the callee's parser puts into the body of a new document;
  the empty string is the empty list.  What the parser does beyond that (a leading
  \<open>title\<close> or \<open>script\<close> goes to the head, character references, repairs of
  malformed markup) is outside the model.
\<close>

datatype node =
    Element string "(string \<times> string) list" "node list"
  | TextNode string
  | CommentNode string

fun tagName :: "node \<Rightarrow> string" where
  "tagName (Element t a ks) = t"
| "tagName (TextNode s) = []"
| "tagName (CommentNode s) = []"

fun attributes :: "node \<Rightarrow> (string \<times> string) list" where
  "attributes (Element t a ks) = a"
| "attributes (TextNode s) = []"
| "attributes (CommentNode s) = []"

fun childNodes :: "node \<Rightarrow> node list" where
  "childNodes (Element t a ks) = ks"
| "childNodes (TextNode s) = []"
| "childNodes (CommentNode s) = []"

definition getAttribute :: "string \<Rightarrow> node \<Rightarrow> string option" where
  "getAttribute a n = map_of (attributes n) a"

fun descendants :: "node \<Rightarrow> node list" where
  "descendants (Element t a ks) = concat (map (\<lambda>k. k # descendants k) ks)"
| "descendants (TextNode s) = []"
| "descendants (CommentNode s) = []"

fun textContent :: "node \<Rightarrow> string" where
  "textContent (Element t a ks) = concat (map textContent ks)"
| "textContent (TextNode s) = s"
| "textContent (CommentNode s) = []"

definition to_upper :: "char \<Rightarrow> char" where
  "to_upper c = (let n = of_char c :: nat in if 97 \<le> n \<and> n \<le> 122 then char_of (n - 32) else c)"

definition nodeName :: "node \<Rightarrow> string" where
  "nodeName n = map to_upper (tagName n)"

text \<open>\<open>node.querySelectorAll(tag)\<close>: the descendants with that tag, in document order.\<close>

definition querySelectorAll_tag :: "string \<Rightarrow> node \<Rightarrow> node list" where
  "querySelectorAll_tag t n = filter (\<lambda>d. tagName d = t) (descendants n)"

section \<open>The \<open>smartLists\<close> rule (src/extraction/markdownConverter.ts)\<close>

text \<open>
  The rule's \<open>filter\<close> and \<open>replacement\<close>.  The quotient of the two counts is a
  quotient of integers compared with 0.8; in double precision the comparison gives what
  the exact one gives for every list of fewer than \<open>10\<^sup>1\<^sup>4\<close> items, and it is taken
  exactly here.
\<close>

definition smartLists_filter :: "node \<Rightarrow> bool" where
  "smartLists_filter n =
     (if nodeName n \<noteq> ''UL'' \<and> nodeName n \<noteq> ''OL'' then False
      else let listItems = querySelectorAll_tag ''li'' n;
               linksInList = querySelectorAll_tag ''a'' n
           in if length listItems > 0 \<and>
                 (of_nat (length linksInList) :: rat) / of_nat (length listItems) > 8 / 10
              then True else False)"

definition smartLists_replacement :: string where
  "smartLists_replacement = []"

text \<open>
  Modelled from the spec's words, for the comparison with the rule's filter: lists with at least 80 percent
  of items being links, an item being a link when it holds one.
\<close>

definition spec_navigation_list :: "node \<Rightarrow> bool" where
  "spec_navigation_list n =
     ((nodeName n = ''UL'' \<or> nodeName n = ''OL'') \<and>
      (let listItems = querySelectorAll_tag ''li'' n;
           linkItems = filter (\<lambda>li. querySelectorAll_tag ''a'' li \<noteq> []) listItems
       in listItems \<noteq> [] \<and> 10 * length linkItems \<ge> 8 * length listItems))"

text \<open>
  Claim C8, as the code has it.  The rule drops a list (its filter holds, and its
  replacement is the empty string) exactly when the node is a \<open>ul\<close> or \<open>ol\<close> with at
  least one \<open>li\<close> descendant whose \<open>a\<close> descendants number \<^emph>\<open>more\<close> than 80 percent of
  its \<open>li\<close> descendants; every other list is left to Turndown's own list rule.
\<close>

theorem smartLists_filter_iff:
  "smartLists_filter n \<longleftrightarrow>
     (nodeName n = ''UL'' \<or> nodeName n = ''OL'') \<and>
     0 < length (querySelectorAll_tag ''li'' n) \<and>
     4 * length (querySelectorAll_tag ''li'' n) < 5 * length (querySelectorAll_tag ''a'' n)"
proof -
  have r: "((of_nat a :: rat) / of_nat l > 8 / 10) \<longleftrightarrow> 4 * l < 5 * a" if "0 < l" for a l :: nat
  proof -
    have "((of_nat a :: rat) / of_nat l > 8 / 10) \<longleftrightarrow> (8 * (of_nat l :: rat) < 10 * of_nat a)"
      using that by (simp add: field_simps)
    also have "\<dots> \<longleftrightarrow> (of_nat (8 * l) :: rat) < of_nat (10 * a)"
      by simp
    also have "\<dots> \<longleftrightarrow> 8 * l < 10 * a"
      by (rule of_nat_less_iff)
    finally show ?thesis by auto
  qed
  show ?thesis
    using r [of "length (querySelectorAll_tag ''li'' n)" "length (querySelectorAll_tag ''a'' n)"]
    by (auto simp add: smartLists_filter_def Let_def)
qed

text \<open>
  Claim C8 as stated fails in both directions.  A list of five items, four of them
  links, is at 80 percent and is kept.  A list of five items of which one holds five links is
  at 20 percent of items and is dropped, since the rule counts links, not items.
\<close>

definition link_item :: "string \<Rightarrow> node" where
  "link_item name = Element ''li'' [] [Element ''a'' [(''href'', ''/'' @ name)] [TextNode name]]"

definition text_item :: "string \<Rightarrow> node" where
  "text_item name = Element ''li'' [] [TextNode name]"

definition list_four_of_five :: node where
  "list_four_of_five =
     Element ''ul'' []
       [link_item ''a'', link_item ''b'', link_item ''c'', link_item ''d'', text_item ''e'']"

definition list_one_item_many_links :: node where
  "list_one_item_many_links =
     Element ''ul'' []
       [Element ''li'' []
          [Element ''a'' [(''href'', ''/1'')] [TextNode ''1''],
           Element ''a'' [(''href'', ''/2'')] [TextNode ''2''],
           Element ''a'' [(''href'', ''/3'')] [TextNode ''3''],
           Element ''a'' [(''href'', ''/4'')] [TextNode ''4''],
           Element ''a'' [(''href'', ''/5'')] [TextNode ''5'']],
        text_item ''b'', text_item ''c'', text_item ''d'', text_item ''e'']"

theorem smartLists_counterexample:
  "spec_navigation_list list_four_of_five \<and> \<not> smartLists_filter list_four_of_five \<and>
   \<not> spec_navigation_list list_one_item_many_links \<and>
   smartLists_filter list_one_item_many_links"
  by code_simp

section \<open>HTML cleaning (src/extraction/htmlCleaner.ts)\<close>

text \<open>
  The selectors of the constants are simple selectors: a tag, a class, an id, an
  attribute with a value.  A domain override's selectors are taken from the same
  fragment.
\<close>

datatype selector = Tag string | Class string | Id string | AttrEq string string

definition is_html_space :: "char \<Rightarrow> bool" where
  "is_html_space c = (of_char c \<in> {9, 10, 12, 13, 32 :: nat})"

fun tokens :: "string \<Rightarrow> string \<Rightarrow> string list" where
  "tokens acc [] = (if acc = [] then [] else [acc])"
| "tokens acc (c # cs) =
     (if is_html_space c then (if acc = [] then tokens [] cs else acc # tokens [] cs)
      else tokens (acc @ [c]) cs)"

definition classList :: "node \<Rightarrow> string list" where
  "classList n = (case getAttribute ''class'' n of None \<Rightarrow> [] | Some v \<Rightarrow> tokens [] v)"

fun matches :: "selector \<Rightarrow> node \<Rightarrow> bool" where
  "matches (Tag t) n = (tagName n = t)"
| "matches (Class c) n = (c \<in> set (classList n))"
| "matches (Id i) n = (getAttribute ''id'' n = Some i)"
| "matches (AttrEq a v) n = (getAttribute a n = Some v)"

text \<open>
  \<open>new JSDOM(html).window.document\<close>.  A document is its document element, or
  \<^const>\<open>None\<close> once that element has been removed.  The parser builds the
  \<open>html\<close> element with a \<open>head\<close> and the \<open>body\<close> that holds the nodes
  of \<open>html\<close>; the content of the head and the attributes of the three elements are
  left out.  \<open>document.body\<close> is the first \<open>body\<close> child of the document element,
  or \<open>null\<close>.
\<close>

type_synonym document = "node option"

definition JSDOM :: "node list \<Rightarrow> document" where
  "JSDOM html = Some (Element ''html'' [] [Element ''head'' [] [], Element ''body'' [] html])"

definition document_body :: "document \<Rightarrow> node option" where
  "document_body document =
     (case document of
        None \<Rightarrow> None
      | Some documentElement \<Rightarrow>
          find (\<lambda>k. tagName k = ''body'') (childNodes documentElement))"

text \<open>\<open>document.querySelector(sel)\<close>: the first match in document order.\<close>

definition querySelector :: "selector \<Rightarrow> document \<Rightarrow> node option" where
  "querySelector sel document =
     (case document of
        None \<Rightarrow> None
      | Some documentElement \<Rightarrow>
          find (matches sel) (documentElement # descendants documentElement))"

text \<open>
  \<open>nodes.forEach(el => el.remove())\<close> for the nodes of the document that satisfy
  \<open>P\<close>: each is taken out of its parent, and a removed node takes its subtree with it.
\<close>

fun prune :: "(node \<Rightarrow> bool) \<Rightarrow> node \<Rightarrow> node" where
  "prune P (Element t a ks) = Element t a (map (prune P) (filter (\<lambda>k. \<not> P k) ks))"
| "prune P (TextNode s) = TextNode s"
| "prune P (CommentNode s) = CommentNode s"

definition remove_nodes :: "(node \<Rightarrow> bool) \<Rightarrow> document \<Rightarrow> document" where
  "remove_nodes P document =
     (case document of
        None \<Rightarrow> None
      | Some documentElement \<Rightarrow>
          if P documentElement then None else Some (prune P documentElement))"

definition REMOVE_SELECTORS :: "selector list" where
  "REMOVE_SELECTORS =
     [Tag ''script'', Tag ''style'', Tag ''noscript'', Tag ''iframe'', Tag ''nav'',
      Tag ''header'', Tag ''footer'', Tag ''aside'', Class ''navigation'', Class ''menu'',
      Class ''sidebar'', Class ''cookie-banner'', Class ''popup'', Class ''modal'',
      Class ''advertisement'', Class ''ad'', AttrEq ''role'' ''navigation'',
      AttrEq ''role'' ''banner'', AttrEq ''role'' ''contentinfo'',
      AttrEq ''role'' ''complementary'']"

definition CMS_CONTENT_SELECTORS :: "selector list" where
  "CMS_CONTENT_SELECTORS =
     [Class ''entry-content'', Class ''post-content'', Class ''article-content'',
      Class ''content-area'', Id ''content'', Class ''main-content'',
      AttrEq ''itemprop'' ''articleBody'']"

definition READABILITY_MIN_WORDS :: int where
  "READABILITY_MIN_WORDS = 100"

text \<open>\<open>a:empty\<close> is an \<open>a\<close> element without element or text children.\<close>

fun is_comment :: "node \<Rightarrow> bool" where
  "is_comment (CommentNode s) = True"
| "is_comment (Element t a ks) = False"
| "is_comment (TextNode s) = False"

definition is_empty_link :: "node \<Rightarrow> bool" where
  "is_empty_link n = (tagName n = ''a'' \<and> filter (\<lambda>k. \<not> is_comment k) (childNodes n) = [])"

text \<open>
  \<open>removeElements\<close>.  Every exit through the \<open>catch\<close> returns the input: here, the
  read of \<open>document.body.innerHTML\<close> when a selector has removed the body.
\<close>

definition removeElements :: "node list \<Rightarrow> selector list \<Rightarrow> node list" where
  "removeElements html selectors =
     (if html = [] \<or> selectors = [] then html
      else
        let document = JSDOM html in
        case document_body document of
          None \<Rightarrow> html
        | Some b \<Rightarrow>
            (case document_body
                    (fold (\<lambda>sel d. remove_nodes (matches sel) d) selectors document) of
               None \<Rightarrow> html
             | Some b' \<Rightarrow> childNodes b'))"

text \<open>
  \<open>cleanHtml\<close>.  The elements of \<open>REMOVE_SELECTORS\<close> and the empty links are removed
  from the document.  Then comes the tree walker: its \<open>currentNode\<close> is its root,
  \<open>document.body\<close>, until \<open>nextNode()\<close> is called, and the loop collects
  \<open>walker.currentNode\<close> before it asks for the next node, so
  \<open>commentsToRemove\<close> is the body element followed by the comments below it.  Each
  collected node is removed from its parent.  The function returns
  \<open>document.body.innerHTML\<close>; when \<open>document.body\<close> is \<open>null\<close> the read
  throws, and the \<open>catch\<close> returns \<open>html\<close>, as it does when
  \<open>createTreeWalker\<close> is given \<open>null\<close>.
\<close>

definition cleanHtml :: "node list \<Rightarrow> node list" where
  "cleanHtml html =
     (if html = [] then []
      else
        let document = JSDOM html in
        case document_body document of
          None \<Rightarrow> html
        | Some b \<Rightarrow>
            let removed = fold (\<lambda>sel d. remove_nodes (matches sel) d) REMOVE_SELECTORS document;
                no_empty_links = remove_nodes is_empty_link removed
            in case document_body no_empty_links of
                 None \<Rightarrow> html
               | Some walker_root \<Rightarrow>
                   let commentsToRemove =
                         walker_root # filter is_comment (descendants walker_root);
                       walked = remove_nodes (\<lambda>n. n \<in> set commentsToRemove) no_empty_links
                   in case document_body walked of
                        None \<Rightarrow> html
                      | Some b' \<Rightarrow> childNodes b')"

text \<open>
  \<open>element.innerHTML.trim()\<close> is the empty string when the element has only text
  children made of white space: tab, line feed, vertical tab, form feed, carriage
  return and space.  (U+00A0 is serialized as \<open>&nbsp;\<close>, which \<open>trim\<close> leaves.)
\<close>

definition is_markup_space :: "char \<Rightarrow> bool" where
  "is_markup_space c = (of_char c \<in> {9, 10, 11, 12, 13, 32 :: nat})"

fun innerHTML_blank :: "node list \<Rightarrow> bool" where
  "innerHTML_blank [] = True"
| "innerHTML_blank (TextNode s # ns) = (list_all is_markup_space s \<and> innerHTML_blank ns)"
| "innerHTML_blank (Element t a ks # ns) = False"
| "innerHTML_blank (CommentNode s # ns) = False"

fun first_nonblank :: "document \<Rightarrow> selector list \<Rightarrow> node list option" where
  "first_nonblank document [] = None"
| "first_nonblank document (sel # sels) =
     (case querySelector sel document of
        None \<Rightarrow> first_nonblank document sels
      | Some element \<Rightarrow>
          if \<not> innerHTML_blank (childNodes element) then Some (childNodes element)
          else first_nonblank document sels)"

definition extractBySelectors :: "node list \<Rightarrow> selector list \<Rightarrow> node list option" where
  "extractBySelectors html selectors =
     (if html = [] \<or> selectors = [] then None else first_nonblank (JSDOM html) selectors)"

subsection \<open>What \<open>cleanHtml\<close> returns\<close>

text \<open>
  The document of \<open>JSDOM\<close> has one body, and removing nodes leaves at most one.  The
  walker's root is that body, so the removal of the collected nodes detaches it, and
  \<open>cleanHtml\<close> always leaves through the \<open>catch\<close>: it returns its input.
\<close>

lemma tagName_prune: "tagName (prune P n) = tagName n"
  by (cases n) simp_all

lemma childNodes_prune:
  "childNodes (prune P n) = map (prune P) (filter (\<lambda>k. \<not> P k) (childNodes n))"
  by (cases n) simp_all

definition bodies :: "document \<Rightarrow> node list" where
  "bodies document =
     (case document of
        None \<Rightarrow> []
      | Some documentElement \<Rightarrow>
          filter (\<lambda>k. tagName k = ''body'') (childNodes documentElement))"

lemma filter_body_prune:
  "filter (\<lambda>k. tagName k = ''body'') (map (prune P) ks) =
     map (prune P) (filter (\<lambda>k. tagName k = ''body'') ks)"
  by (induction ks) (simp_all add: tagName_prune)

lemma length_filter_filter: "length (filter Q (filter R xs)) \<le> length (filter Q xs)"
  by (induction xs) (simp_all add: le_SucI)

lemma bodies_remove_nodes: "length (bodies (remove_nodes P d)) \<le> length (bodies d)"
proof (cases d)
  case None
  then show ?thesis by (simp add: remove_nodes_def bodies_def)
next
  case (Some r)
  have "length (filter (\<lambda>k. tagName k = ''body'') (filter (\<lambda>k. \<not> P k) (childNodes r)))
        \<le> length (filter (\<lambda>k. tagName k = ''body'') (childNodes r))"
    by (rule length_filter_filter)
  then show ?thesis
    using Some by (simp add: remove_nodes_def bodies_def childNodes_prune filter_body_prune)
qed

lemma bodies_fold:
  "length (bodies (fold (\<lambda>sel d. remove_nodes (matches sel) d) sels d)) \<le> length (bodies d)"
proof (induction sels arbitrary: d)
  case Nil
  then show ?case by simp
next
  case (Cons sel sels)
  have "length (bodies (fold (\<lambda>sel d. remove_nodes (matches sel) d) sels
                          (remove_nodes (matches sel) d)))
        \<le> length (bodies (remove_nodes (matches sel) d))"
    by (rule Cons.IH)
  also have "\<dots> \<le> length (bodies d)" by (rule bodies_remove_nodes)
  finally show ?case by simp
qed

lemma bodies_JSDOM: "length (bodies (JSDOM html)) = 1"
  by (simp add: bodies_def JSDOM_def)

lemma document_body_bodies:
  "document_body d = Some b0 \<Longrightarrow> length (bodies d) \<le> 1 \<Longrightarrow> bodies d = [b0]"
proof -
  assume b: "document_body d = Some b0" and l: "length (bodies d) \<le> 1"
  from b obtain r where d: "d = Some r"
    by (cases d) (simp_all add: document_body_def)
  from b d have f: "find (\<lambda>k. tagName k = ''body'') (childNodes r) = Some b0"
    by (simp add: document_body_def)
  then have "b0 \<in> set (childNodes r)" and "tagName b0 = ''body''"
    by (auto simp add: find_Some_iff)
  then have "b0 \<in> set (bodies d)"
    using d by (simp add: bodies_def)
  with l show ?thesis
    by (cases "bodies d") auto
qed

lemma walker_root_removed:
  assumes "document_body d = Some b0" and "length (bodies d) \<le> 1" and "P b0"
  shows "document_body (remove_nodes P d) = None"
proof -
  from assms(1) obtain r where d: "d = Some r"
    by (cases d) (simp_all add: document_body_def)
  have one: "filter (\<lambda>k. tagName k = ''body'') (childNodes r) = [b0]"
    using document_body_bodies [OF assms(1,2)] d by (simp add: bodies_def)
  have "filter (\<lambda>k. tagName k = ''body'') (filter (\<lambda>k. \<not> P k) (childNodes r)) =
        filter (\<lambda>k. \<not> P k) (filter (\<lambda>k. tagName k = ''body'') (childNodes r))"
    by (simp add: conj_commute)
  also have "\<dots> = []" using one assms(3) by simp
  finally have none:
    "filter (\<lambda>k. tagName k = ''body'') (map (prune P) (filter (\<lambda>k. \<not> P k) (childNodes r))) = []"
    by (simp add: filter_body_prune)
  have "find (\<lambda>k. tagName k = ''body'') (map (prune P) (filter (\<lambda>k. \<not> P k) (childNodes r))) = None"
    using none by (simp add: find_None_iff filter_empty_conv)
  then show ?thesis
    using d by (simp add: remove_nodes_def document_body_def childNodes_prune)
qed

lemma cleanHtml_returns_input: "cleanHtml html = html"
proof (cases "html = []")
  case True
  then show ?thesis by (simp add: cleanHtml_def)
next
  case False
  let ?d = "remove_nodes is_empty_link
              (fold (\<lambda>sel d. remove_nodes (matches sel) d) REMOVE_SELECTORS (JSDOM html))"
  have one: "length (bodies ?d) \<le> 1"
    using bodies_remove_nodes [of is_empty_link
        "fold (\<lambda>sel d. remove_nodes (matches sel) d) REMOVE_SELECTORS (JSDOM html)"]
      bodies_fold [of REMOVE_SELECTORS "JSDOM html"] bodies_JSDOM [of html]
    by simp
  have gone: "document_body
        (remove_nodes (\<lambda>n. n \<in> set (b0 # filter is_comment (descendants b0))) ?d) = None"
    if "document_body ?d = Some b0" for b0
    using that one by (rule walker_root_removed) simp
  show ?thesis
    using False gone
    by (simp add: cleanHtml_def Let_def split: option.splits)
qed

section \<open>Content extraction (src/extraction/contentExtractor.ts)\<close>

text \<open>
  \<open>countWords\<close>: \<open>text.trim().split(/\s+/).filter(word => word.length > 0).length\<close>,
  the number of maximal runs of characters that are not white space.
\<close>

fun count_words :: "bool \<Rightarrow> string \<Rightarrow> int" where
  "count_words in_word [] = 0"
| "count_words in_word (c # cs) =
     (if is_ws c then count_words False cs
      else (if in_word then 0 else 1) + count_words True cs)"

definition countWords :: "node list \<Rightarrow> int" where
  "countWords html = (if html = [] then 0 else count_words False (concat (map textContent html)))"

text \<open>
  Mozilla's Readability is a parameter: \<open>parse html url\<close> is the content of the article
  it finds, if any.
\<close>

type_synonym readability = "node list \<Rightarrow> string \<Rightarrow> node list option"

definition extractWithReadability ::
  "readability \<Rightarrow> node list \<Rightarrow> string \<Rightarrow> node list ExtractionResult option" where
  "extractWithReadability parse html page_url =
     (case parse html page_url of
        None \<Rightarrow> None
      | Some content \<Rightarrow>
          if content = [] then None
          else Some \<lparr> r_cleanHtml = content, r_extractionMethod = ''readability'',
                      r_wordCount = countWords content, r_success = True \<rparr>)"

definition extractBySemantic :: "node list \<Rightarrow> node list ExtractionResult option" where
  "extractBySemantic html =
     (case extractBySelectors html
             [Tag ''article'', Tag ''main'', AttrEq ''role'' ''main'',
              AttrEq ''itemprop'' ''articleBody''] of
        None \<Rightarrow> None
      | Some extracted \<Rightarrow>
          Some \<lparr> r_cleanHtml = extracted, r_extractionMethod = ''semantic'',
                 r_wordCount = countWords extracted, r_success = True \<rparr>)"

definition extractByCmsPatterns :: "node list \<Rightarrow> node list ExtractionResult option" where
  "extractByCmsPatterns html =
     (case extractBySelectors html CMS_CONTENT_SELECTORS of
        None \<Rightarrow> None
      | Some extracted \<Rightarrow>
          Some \<lparr> r_cleanHtml = extracted, r_extractionMethod = ''cms_pattern'',
                 r_wordCount = countWords extracted, r_success = True \<rparr>)"

text \<open>\<open>if (result && result.wordCount >= READABILITY_MIN_WORDS) return result\<close>.\<close>

definition accepted :: "'h ExtractionResult option \<Rightarrow> 'h ExtractionResult option" where
  "accepted res =
     (case res of
        None \<Rightarrow> None
      | Some r \<Rightarrow> if r_wordCount r \<ge> READABILITY_MIN_WORDS then Some r else None)"

text \<open>Step 3 of \<open>extractContent\<close>: the domain-specific selectors.\<close>

definition try_domain_selectors ::
  "node list \<Rightarrow> selector list option \<Rightarrow> node list ExtractionResult option" where
  "try_domain_selectors cleanedHtml domainSelectors =
     (case domainSelectors of
        None \<Rightarrow> None
      | Some ds \<Rightarrow>
          if ds = [] then None
          else (case extractBySelectors cleanedHtml ds of
                  None \<Rightarrow> None
                | Some extracted \<Rightarrow>
                    let wordCount = countWords extracted in
                    if wordCount \<ge> READABILITY_MIN_WORDS
                    then Some \<lparr> r_cleanHtml = extracted, r_extractionMethod = ''cms_pattern'',
                                r_wordCount = wordCount, r_success = True \<rparr>
                    else None))"

definition extractContent ::
  "readability \<Rightarrow> node list \<Rightarrow> string \<Rightarrow> selector list option \<Rightarrow> selector list option
     \<Rightarrow> node list ExtractionResult" where
  "extractContent parse html page_url domainSelectors removeSelectors =
     (if html = []
      then \<lparr> r_cleanHtml = [], r_extractionMethod = ''fallback'', r_wordCount = 0,
             r_success = False \<rparr>
      else
        let cleaned = cleanHtml html;
            cleanedHtml = (case removeSelectors of
                             None \<Rightarrow> cleaned
                           | Some rs \<Rightarrow> if rs = [] then cleaned else removeElements cleaned rs)
        in case try_domain_selectors cleanedHtml domainSelectors of
             Some r \<Rightarrow> r
           | None \<Rightarrow>
          (case accepted (extractWithReadability parse cleanedHtml page_url) of
             Some r \<Rightarrow> r
           | None \<Rightarrow>
          (case accepted (extractBySemantic cleanedHtml) of
             Some r \<Rightarrow> r
           | None \<Rightarrow>
          (case accepted (extractByCmsPatterns cleanedHtml) of
             Some r \<Rightarrow> r
           | None \<Rightarrow>
             \<lparr> r_cleanHtml = cleanedHtml, r_extractionMethod = ''fallback'',
               r_wordCount = countWords cleanedHtml, r_success = True \<rparr>))))"

text \<open>
  The HTML the strategies run on (steps 1 and 2): the page as fetched, less the
  elements of the host's \<open>remove_selectors\<close>.
\<close>

definition cleaned_for :: "node list \<Rightarrow> selector list option \<Rightarrow> node list" where
  "cleaned_for html removeSelectors =
     (case removeSelectors of
        None \<Rightarrow> cleanHtml html
      | Some rs \<Rightarrow> if rs = [] then cleanHtml html else removeElements (cleanHtml html) rs)"

lemma cleaned_for_eq:
  "cleaned_for html removeSelectors =
     (case removeSelectors of
        None \<Rightarrow> html
      | Some rs \<Rightarrow> removeElements html rs)"
  by (simp add: cleaned_for_def cleanHtml_returns_input removeElements_def split: option.splits)

text \<open>
  Claim C6, as the code has it.  Whenever extraction succeeds through the domain
  override selectors (the first selector whose first match has non-blank content, that
  content having at least 100 words), the result carries that content and the
  extraction method \<open>cms_pattern\<close>.  The type \<open>ExtractionMethod\<close> has no
  \<open>domain_override\<close>.
\<close>

theorem extractContent_domain_selectors:
  assumes "html \<noteq> []" and "domainSelectors = Some ds" and "ds \<noteq> []"
    and "extractBySelectors (cleaned_for html removeSelectors) ds = Some extracted"
    and "countWords extracted \<ge> READABILITY_MIN_WORDS"
  shows "extractContent parse html page_url domainSelectors removeSelectors =
           \<lparr> r_cleanHtml = extracted, r_extractionMethod = ''cms_pattern'',
             r_wordCount = countWords extracted, r_success = True \<rparr>"
  using assms
  by (simp add: extractContent_def try_domain_selectors_def cleaned_for_def Let_def
      split: option.splits)

definition hundred_words :: string where
  "hundred_words = concat (replicate 100 ''word '')"

definition override_page :: "node list" where
  "override_page =
     [Element ''nav'' [] [TextNode ''menu''],
      Element ''div'' [(''class'', ''story main'')] [Element ''p'' [] [TextNode hundred_words]]]"

lemma override_page_extracted:
  "extractBySelectors (cleaned_for override_page None) [Class ''story'']
     = Some [Element ''p'' [] [TextNode hundred_words]]"
  by code_simp

lemma override_page_words:
  "countWords [Element ''p'' [] [TextNode hundred_words]] = 100"
  by code_simp

theorem extractContent_domain_selectors_witness:
  "override_page \<noteq> [] \<and> [Class ''story''] \<noteq> [] \<and>
   extractBySelectors (cleaned_for override_page None) [Class ''story'']
     = Some [Element ''p'' [] [TextNode hundred_words]] \<and>
   countWords [Element ''p'' [] [TextNode hundred_words]] \<ge> READABILITY_MIN_WORDS \<and>
   extractContent (\<lambda>html page_url. None) override_page ''https://ex.com/a''
       (Some [Class ''story'']) None =
     \<lparr> r_cleanHtml = [Element ''p'' [] [TextNode hundred_words]],
       r_extractionMethod = ''cms_pattern'', r_wordCount = 100, r_success = True \<rparr>"
proof -
  have h1: "override_page \<noteq> []" by (simp add: override_page_def)
  have h3: "[Class ''story''] \<noteq> []" by simp
  have h5: "countWords [Element ''p'' [] [TextNode hundred_words]] \<ge> READABILITY_MIN_WORDS"
    by (simp add: override_page_words READABILITY_MIN_WORDS_def)
  from extractContent_domain_selectors [OF h1 refl h3 override_page_extracted h5,
      of "\<lambda>html page_url. None" "''https://ex.com/a''"]
  show ?thesis
    using h1 h5 override_page_extracted by (simp add: override_page_words)
qed

text \<open>
  Claim C6 as stated fails: extraction through the override selector \<open>.story\<close>
  records \<open>cms_pattern\<close>, not \<open>domain_override\<close>.
\<close>

theorem extraction_method_counterexample:
  "r_extractionMethod
     (extractContent (\<lambda>html page_url. None) override_page ''https://ex.com/a''
        (Some [Class ''story'']) None) = ''cms_pattern'' \<and>
   r_extractionMethod
     (extractContent (\<lambda>html page_url. None) override_page ''https://ex.com/a''
        (Some [Class ''story'']) None) \<noteq> ''domain_override''"
proof -
  have h1: "override_page \<noteq> []" by (simp add: override_page_def)
  have h5: "countWords [Element ''p'' [] [TextNode hundred_words]] \<ge> READABILITY_MIN_WORDS"
    by (simp add: override_page_words READABILITY_MIN_WORDS_def)
  have "try_domain_selectors (cleaned_for override_page None) (Some [Class ''story'']) =
      Some \<lparr> r_cleanHtml = [Element ''p'' [] [TextNode hundred_words]],
             r_extractionMethod = ''cms_pattern'', r_wordCount = 100, r_success = True \<rparr>"
    using h5 by (simp add: try_domain_selectors_def override_page_extracted Let_def
        override_page_words)
  then show ?thesis
    using h1 by (simp add: extractContent_def cleaned_for_def Let_def)
qed

subsection \<open>Pages the extraction runs on\<close>

text \<open>
  Nothing is pruned before the selectors are tried.  On a page whose first \<open>.story\<close>
  is a two-word teaser inside the \<open>nav\<close> element, the override selector stops at
  that first match, which is below the word threshold, and the cascade ends in the
  fallback with the whole page.
\<close>

definition teaser_page :: "node list" where
  "teaser_page =
     [Element ''nav'' [] [Element ''div'' [(''class'', ''story'')] [TextNode ''short teaser '']],
      Element ''div'' [(''class'', ''story'')] [Element ''p'' [] [TextNode hundred_words]]]"

lemma extractContent_teaser_page:
  "extractContent (\<lambda>html page_url. None) teaser_page ''https://ex.com/t''
     (Some [Class ''story'']) None =
   \<lparr> r_cleanHtml = teaser_page, r_extractionMethod = ''fallback'', r_wordCount = 102,
     r_success = True \<rparr>"
  by code_simp

text \<open>
  The page of \<open>crawl_nav_only\<close> above, on a host whose override has the
  \<open>remove_selectors\<close> \<open>nav\<close>: a body that is one \<open>nav\<close> element is emptied by
  \<open>removeElements\<close>, and the extraction falls back to the empty clean HTML.  Without
  the override the fallback returns the page as fetched.
\<close>

lemma extractContent_nav_only:
  "extractContent (\<lambda>html page_url. None) [Element ''nav'' [] [TextNode ''menu'']]
     ''https://ex.com/n'' None (Some [Tag ''nav'']) =
   \<lparr> r_cleanHtml = [], r_extractionMethod = ''fallback'', r_wordCount = 0, r_success = True \<rparr>"
  by code_simp

lemma extractContent_nav_only_no_override:
  "extractContent (\<lambda>html page_url. None) [Element ''nav'' [] [TextNode ''menu'']]
     ''https://ex.com/n'' None None =
   \<lparr> r_cleanHtml = [Element ''nav'' [] [TextNode ''menu'']], r_extractionMethod = ''fallback'',
     r_wordCount = 1, r_success = True \<rparr>"
  by code_simp

section \<open>Navigation extraction (src/extraction/navExtractor.ts)\<close>

text \<open>
  What rests on the URL API and on floating point is a parameter: \<open>normalizeUrlSafe\<close>
  and \<open>isExternalLink\<close> (both at the page's \<open>baseUrl\<close>), and
  \<open>Math.round((index / Math.max(totalLinks, 1)) * 100)\<close> as a function of the index and
  the maximum.
\<close>

record nav_env =
  normalizeUrlSafe :: "string \<Rightarrow> string"
  isExternalLink :: "string \<Rightarrow> bool"
  positionPct :: "nat \<Rightarrow> nat \<Rightarrow> int"

text \<open>
  \<open>$link.clone().children().remove().end().text().trim() || $link.text().trim()\<close>: the
  link's own text, or else all of its text.
\<close>

definition ownText :: "node \<Rightarrow> string" where
  "ownText n = concat (map (\<lambda>k. case k of TextNode s \<Rightarrow> s | _ \<Rightarrow> []) (childNodes n))"

definition link_label :: "node \<Rightarrow> string" where
  "link_label link = or_else (trim (ownText link)) (trim (textContent link))"

fun starts_with :: "string \<Rightarrow> string \<Rightarrow> bool" where
  "starts_with [] s = True"
| "starts_with (p # ps) [] = False"
| "starts_with (p # ps) (c # cs) = (c = p \<and> starts_with ps cs)"

definition attr_or_empty :: "string \<Rightarrow> node \<Rightarrow> string" where
  "attr_or_empty a n = (case getAttribute a n of None \<Rightarrow> [] | Some v \<Rightarrow> v)"

definition link_type_of :: "node \<Rightarrow> LinkType" where
  "link_type_of link = (if querySelectorAll_tag ''img'' link \<noteq> [] then lt_image else lt_text)"

definition child_lis :: "node \<Rightarrow> node list" where
  "child_lis n = filter (\<lambda>k. tagName k = ''li'') (childNodes n)"

definition first_of :: "'a list \<Rightarrow> 'a option" where
  "first_of xs = (case xs of [] \<Rightarrow> None | x # rest \<Rightarrow> Some x)"

text \<open>
  \<open>$li.find('> a, > span > a').first()\<close>, in document order; \<open>$li.find('> a').first()\<close>;
  \<open>$li.find('> ul.sub-menu, > ul.dropdown-menu, > .sub-menu, > ul')\<close>;
  \<open>$li.find('> ul.sub-menu, > ul.dropdown-menu, > ul')\<close>.
\<close>

definition top_link :: "node \<Rightarrow> node option" where
  "top_link li =
     first_of (concat (map (\<lambda>k. if tagName k = ''a'' then [k]
                                else if tagName k = ''span''
                                then filter (\<lambda>g. tagName g = ''a'') (childNodes k)
                                else [])
                           (childNodes li)))"

definition sub_link :: "node \<Rightarrow> node option" where
  "sub_link li = first_of (filter (\<lambda>k. tagName k = ''a'') (childNodes li))"

definition top_submenus :: "node \<Rightarrow> node list" where
  "top_submenus li =
     filter (\<lambda>k. tagName k = ''ul'' \<or> (tagName k \<noteq> [] \<and> ''sub-menu'' \<in> set (classList k)))
       (childNodes li)"

definition deeper_submenus :: "node \<Rightarrow> node list" where
  "deeper_submenus li = filter (\<lambda>k. tagName k = ''ul'') (childNodes li)"

text \<open>
  \<open>extractSubmenuItems\<close> pushes onto the shared array \<open>items\<close>; the model returns the
  items it pushes, in order.  The recursion ends because \<open>depth\<close> grows to 4.
\<close>

function extractSubmenuItems :: "nav_env \<Rightarrow> node \<Rightarrow> string list \<Rightarrow> nat \<Rightarrow> NavItem list" where
  "extractSubmenuItems env submenu parentLabels dep =
     (if dep > 3 then []
      else concat (map (\<lambda>(index, li).
             case sub_link li of
               None \<Rightarrow> []
             | Some link \<Rightarrow>
                 let href = attr_or_empty ''href'' link;
                     lbl = link_label link
                 in if href = [] \<or> lbl = [] then []
                    else if href = ''#'' \<or> starts_with ''javascript:'' href then []
                    else \<lparr> url = normalizeUrlSafe env href,
                           label = lbl,
                           depth = dep,
                           order = index,
                           parent_labels = Some parentLabels,
                           is_external = isExternalLink env href,
                           link_type = link_type_of link \<rparr>
                         # (case deeper_submenus li of
                              [] \<Rightarrow> []
                            | deeper # others \<Rightarrow>
                                extractSubmenuItems env deeper (parentLabels @ [lbl]) (dep + 1)))
           (enumerate 0 (child_lis submenu))))"
  by pat_completeness auto
termination
  by (relation "measure (\<lambda>(env, submenu, parentLabels, dep). 4 - dep)") auto

declare extractSubmenuItems.simps [simp del]

text \<open>
  One round of the loop of \<open>extractMenuItems\<close>, from the array before to the array
  after.  \<open>skip_nested\<close> is the test
  \<open>$topLevelItems.length > 0 && $li.parent().closest('li').length > 0\<close>: whether the
  container is, or lies in, an \<open>li\<close>.
\<close>

definition menu_item :: "nav_env \<Rightarrow> bool \<Rightarrow> node \<Rightarrow> NavItem list \<Rightarrow> NavItem list" where
  "menu_item env skip_nested li items =
     (if skip_nested then items
      else case top_link li of
        None \<Rightarrow> items
      | Some link \<Rightarrow>
          let href = attr_or_empty ''href'' link;
              lbl = link_label link
          in if lbl = [] then items
             else
               let submenu = top_submenus li;
                   hasSubmenu = (submenu \<noteq> [])
               in if \<not> hasSubmenu \<and>
                     (href = [] \<or> href = ''#'' \<or> starts_with ''javascript:'' href)
                  then items
                  else
                    let pushed = items @
                          [\<lparr> url = (if href \<noteq> [] \<and> href \<noteq> ''#''
                                     then normalizeUrlSafe env href else ''#''),
                             label = lbl,
                             depth = 0,
                             order = length items,
                             parent_labels = None,
                             is_external = isExternalLink env href,
                             link_type = link_type_of link \<rparr>]
                    in (case submenu of
                          [] \<Rightarrow> pushed
                        | first_submenu # others \<Rightarrow>
                            pushed @ extractSubmenuItems env first_submenu [lbl] 1))"

definition extractMenuItems :: "nav_env \<Rightarrow> bool \<Rightarrow> node \<Rightarrow> NavItem list" where
  "extractMenuItems env container_in_li container =
     (let topLevelItems = child_lis container;
          menuItems = (if topLevelItems \<noteq> [] then topLevelItems
                       else querySelectorAll_tag ''li'' container)
      in fold (menu_item env (topLevelItems \<noteq> [] \<and> container_in_li)) menuItems [])"

text \<open>The order values of the items of one depth, in the cluster's order.\<close>

definition orders_at :: "nat \<Rightarrow> NavItem list \<Rightarrow> nat list" where
  "orders_at d items = map order (filter (\<lambda>i. depth i = d) items)"

text \<open>
  A menu of two top-level items, the first with a submenu of two.
\<close>

definition menu_link :: "string \<Rightarrow> string \<Rightarrow> node" where
  "menu_link href txt = Element ''a'' [(''href'', href)] [TextNode txt]"

definition menu_with_submenu :: node where
  "menu_with_submenu =
     Element ''ul'' []
       [Element ''li'' []
          [menu_link ''/a'' ''A'',
           Element ''ul'' [(''class'', ''sub-menu'')]
             [Element ''li'' [] [menu_link ''/a1'' ''A1''],
              Element ''li'' [] [menu_link ''/a2'' ''A2'']]],
        Element ''li'' [] [menu_link ''/b'' ''B'']]"

text \<open>
  Claim C9 on that menu.  The top-level items get \<open>order: items.length\<close>, and
  \<open>items\<close> holds the submenu's items too: the second top-level item has order 3, and
  the orders at depth 0 are 0 and 3.
\<close>

theorem extractMenuItems_order_gap:
  "map (\<lambda>i. (label i, depth i, order i)) (extractMenuItems env False menu_with_submenu)
     = [(''A'', 0, 0), (''A1'', 1, 0), (''A2'', 1, 1), (''B'', 0, 3)] \<and>
   orders_at 0 (extractMenuItems env False menu_with_submenu) = [0, 3]"
  by (simp add: extractMenuItems_def menu_item_def menu_with_submenu_def menu_link_def
      child_lis_def top_link_def first_of_def top_submenus_def classList_def getAttribute_def
      is_html_space_def attr_or_empty_def link_label_def ownText_def or_else_def trim_def
      is_ws_def extractSubmenuItems.simps sub_link_def deeper_submenus_def Let_def
      link_type_of_def querySelectorAll_tag_def enumerate_eq_zip orders_at_def)

subsection \<open>Content links\<close>

text \<open>
  \<open>StructuralElement\<close> (src/types/enhancedMarkdown.types.ts) and
  \<open>getStructuralTypeAtPosition\<close> (src/extraction/structuralDetector.ts).
\<close>

datatype StructuralElementType =
  el_faq_module | el_toc_or_jump | el_breadcrumb | el_template_cta | el_accordion
  | el_testimonial | el_author_bio | el_related_posts

record StructuralElement =
  el_type :: StructuralElementType
  startIndex :: int
  endIndex :: int

definition getStructuralTypeAtPosition :: "int \<Rightarrow> StructuralElement list \<Rightarrow> StructuralElement option" where
  "getStructuralTypeAtPosition position elements =
     find (\<lambda>element. position \<ge> startIndex element \<and> position \<le> endIndex element) elements"

fun mapStructuralType :: "StructuralElementType \<Rightarrow> LinkSourceType" where
  "mapStructuralType el_faq_module = faq_module"
| "mapStructuralType el_toc_or_jump = toc_or_jump"
| "mapStructuralType el_breadcrumb = st_breadcrumb"
| "mapStructuralType el_template_cta = template_cta"
| "mapStructuralType el_accordion = faq_module"
| "mapStructuralType el_testimonial = testimonial"
| "mapStructuralType el_author_bio = author_bio"
| "mapStructuralType el_related_posts = related_posts"

text \<open>
  One \<open>a[href]\<close> of the main content, with what the loop asks cheerio about it: its
  \<open>href\<close>, whether \<open>closest(CONTENT_EXCLUDE_SELECTORS)\<close> finds an ancestor, its text,
  the \<open>alt\<close> of its first image, \<open>html.indexOf($.html($link))\<close>, and the text of the
  heading among its previous siblings and among its parent's.
\<close>

record ContentAnchor =
  a_href :: string
  a_in_excluded :: bool
  a_text :: string
  a_img_alt :: "string option"
  a_position :: int
  a_prev_heading :: "string option"
  a_parent_prev_heading :: "string option"

text \<open>The loop's variables: \<open>contentLinks\<close>, \<open>seenUrls\<close> and \<open>currentHeading\<close>.\<close>

record link_scan =
  contentLinks :: "ContentLink list"
  seenUrls :: "string set"
  currentHeading :: "string option"

fun contains :: "string \<Rightarrow> string \<Rightarrow> bool" where
  "contains p [] = (p = [])"
| "contains p (c # cs) = (starts_with p (c # cs) \<or> contains p cs)"

text \<open>One round of \<open>$links.each\<close>.\<close>

definition content_link_step ::
  "nav_env \<Rightarrow> string \<Rightarrow> StructuralElement list \<Rightarrow> nat \<Rightarrow> nat \<times> ContentAnchor \<Rightarrow> link_scan
     \<Rightarrow> link_scan" where
  "content_link_step env baseUrl elements totalLinks ia st =
     (case ia of (index, link) \<Rightarrow>
        let href = a_href link in
        if href = [] \<or> href = ''#'' \<or> starts_with ''javascript:'' href then st
        else if a_in_excluded link then st
        else
          let lbl = or_else (trim (a_text link))
                      (case a_img_alt link of None \<Rightarrow> [] | Some alt \<Rightarrow> alt)
          in if lbl = [] then st
             else
               let u = normalizeUrlSafe env href in
               if u \<in> seenUrls st then st
               else
                 let structural =
                       (if a_position link \<noteq> - 1
                        then getStructuralTypeAtPosition (a_position link) elements else None);
                     sourceType0 =
                       (case structural of None \<Rightarrow> contextual_body
                        | Some element \<Rightarrow> mapStructuralType (el_type element));
                     sourceType =
                       (if starts_with ''#'' href \<or>
                           (contains ''#'' href \<and> starts_with baseUrl href)
                        then toc_or_jump else sourceType0);
                     heading =
                       (case a_prev_heading link of
                          Some h \<Rightarrow> Some (trim h)
                        | None \<Rightarrow>
                            (case a_parent_prev_heading link of
                               Some h \<Rightarrow> Some (trim h)
                             | None \<Rightarrow> currentHeading st));
                     bodyPositionPct = positionPct env index (max totalLinks 1)
                 in \<lparr> contentLinks = contentLinks st @
                        [\<lparr> cl_url = u,
                           cl_label = lbl,
                           source_type = sourceType,
                           nearest_heading = (case heading of None \<Rightarrow> None
                                              | Some h \<Rightarrow> if h = [] then None else Some h),
                           body_position_pct = bodyPositionPct,
                           cl_is_external = isExternalLink env href \<rparr>],
                      seenUrls = insert u (seenUrls st),
                      currentHeading = heading \<rparr>)"

definition extractContentLinks ::
  "nav_env \<Rightarrow> string \<Rightarrow> StructuralElement list \<Rightarrow> ContentAnchor list \<Rightarrow> ContentLink list" where
  "extractContentLinks env baseUrl elements links =
     contentLinks
       (fold (content_link_step env baseUrl elements (length links))
          (enumerate 0 links)
          \<lparr> contentLinks = [], seenUrls = {}, currentHeading = None \<rparr>)"

text \<open>
  A link the loop does not skip before it looks at \<open>seenUrls\<close>, its label and its
  normalized URL.
\<close>

definition candidate :: "ContentAnchor \<Rightarrow> bool" where
  "candidate link =
     (\<not> (a_href link = [] \<or> a_href link = ''#'' \<or> starts_with ''javascript:'' (a_href link))
      \<and> \<not> a_in_excluded link
      \<and> or_else (trim (a_text link)) (case a_img_alt link of None \<Rightarrow> [] | Some alt \<Rightarrow> alt) \<noteq> [])"

definition candidate_label :: "ContentAnchor \<Rightarrow> string" where
  "candidate_label link =
     or_else (trim (a_text link)) (case a_img_alt link of None \<Rightarrow> [] | Some alt \<Rightarrow> alt)"

text \<open>First occurrences: the list without the elements whose key came before.\<close>

fun first_by :: "('a \<Rightarrow> 'k) \<Rightarrow> 'k set \<Rightarrow> 'a list \<Rightarrow> 'a list" where
  "first_by key seen [] = []"
| "first_by key seen (x # xs) =
     (if key x \<in> seen then first_by key seen xs else x # first_by key (insert (key x) seen) xs)"

lemma step_cases:
  "content_link_step env b els n (i, l) st =
     (if candidate l \<and> normalizeUrlSafe env (a_href l) \<notin> seenUrls st
      then \<lparr> contentLinks = contentLinks st @
               [last (contentLinks (content_link_step env b els n (i, l) st))],
             seenUrls = insert (normalizeUrlSafe env (a_href l)) (seenUrls st),
             currentHeading = currentHeading (content_link_step env b els n (i, l) st) \<rparr>
      else st)"
  by (auto simp add: content_link_step_def candidate_def Let_def)

lemma step_url_label:
  assumes "candidate l" and "normalizeUrlSafe env (a_href l) \<notin> seenUrls st"
  shows "cl_url (last (contentLinks (content_link_step env b els n (i, l) st)))
           = normalizeUrlSafe env (a_href l)"
    and "cl_label (last (contentLinks (content_link_step env b els n (i, l) st)))
           = candidate_label l"
  using assms by (auto simp add: content_link_step_def candidate_def candidate_label_def Let_def)

definition link_key :: "nav_env \<Rightarrow> ContentAnchor \<Rightarrow> string" where
  "link_key env l = normalizeUrlSafe env (a_href l)"

lemma fold_steps:
  "seenUrls st = S \<Longrightarrow>
   map (\<lambda>c. (cl_url c, cl_label c))
       (contentLinks (fold (content_link_step env b els n) (enumerate k links) st)) =
   map (\<lambda>c. (cl_url c, cl_label c)) (contentLinks st) @
   map (\<lambda>l. (link_key env l, candidate_label l))
       (first_by (link_key env) S (filter candidate links))"
proof (induction links arbitrary: st S k)
  case Nil
  then show ?case by simp
next
  case (Cons l links)
  let ?st' = "content_link_step env b els n (k, l) st"
  show ?case
  proof (cases "candidate l \<and> link_key env l \<notin> S")
    case True
    then have new: "candidate l" "normalizeUrlSafe env (a_href l) \<notin> seenUrls st"
      using Cons.prems by (simp_all add: link_key_def)
    have st': "?st' = \<lparr> contentLinks = contentLinks st @ [last (contentLinks ?st')],
                        seenUrls = insert (link_key env l) S,
                        currentHeading = currentHeading ?st' \<rparr>"
      using step_cases [of env b els n k l st] new Cons.prems by (simp add: link_key_def)
    have seen': "seenUrls ?st' = insert (link_key env l) S"
      by (subst st') simp
    have links': "contentLinks ?st' = contentLinks st @ [last (contentLinks ?st')]"
      by (subst st') simp
    have "map (\<lambda>c. (cl_url c, cl_label c)) (contentLinks ?st') =
          map (\<lambda>c. (cl_url c, cl_label c)) (contentLinks st) @
          [(link_key env l, candidate_label l)]"
      by (subst links') (simp add: step_url_label [OF new] link_key_def)
    then show ?thesis
      using Cons.IH [OF seen', of "Suc k"] True by simp
  next
    case False
    then have "?st' = st"
      using step_cases [of env b els n k l st] Cons.prems by (auto simp add: link_key_def)
    then show ?thesis
      using Cons.IH [OF Cons.prems, of "Suc k"] False by auto
  qed
qed

lemma first_by_keys:
  "distinct (map key (first_by key S xs)) \<and> set (map key (first_by key S xs)) \<inter> S = {}"
  by (induction xs arbitrary: S) auto

lemma extractContentLinks_first_by:
  "map (\<lambda>c. (cl_url c, cl_label c)) (extractContentLinks env b els links) =
   map (\<lambda>l. (link_key env l, candidate_label l))
       (first_by (link_key env) {} (filter candidate links))"
  using fold_steps [of "\<lparr> contentLinks = [], seenUrls = {}, currentHeading = None \<rparr>" "{}"
      env b els "length links" 0 links]
  by (simp add: extractContentLinks_def)


lemma first_by_positions:
  "first_by key S xs =
     map (\<lambda>i. xs ! i)
       (filter (\<lambda>i. key (xs ! i) \<notin> S \<and> (\<forall>j<i. key (xs ! j) \<noteq> key (xs ! i)))
          [0..<length xs])"
proof (induction xs arbitrary: S)
  case Nil
  then show ?case by simp
next
  case (Cons x xs)
  have shift: "[0..<length (x # xs)] = 0 # map Suc [0..<length xs]"
    by (simp add: upt_conv_Cons map_Suc_upt del: upt_Suc)
  have all_Suc: "(\<forall>j<Suc i. P j) \<longleftrightarrow> P 0 \<and> (\<forall>j<i. P (Suc j))" for i and P :: "nat \<Rightarrow> bool"
    by (auto simp add: less_Suc_eq_0_disj)
  show ?case
  proof (cases "key x \<in> S")
    case True
    have "filter (\<lambda>i. key ((x # xs) ! i) \<notin> S \<and> (\<forall>j<i. key ((x # xs) ! j) \<noteq> key ((x # xs) ! i)))
            [0..<length (x # xs)] =
          map Suc (filter (\<lambda>i. key (xs ! i) \<notin> S \<and> (\<forall>j<i. key (xs ! j) \<noteq> key (xs ! i)))
            [0..<length xs])"
      unfolding shift using True
      by (auto simp add: filter_map comp_def all_Suc intro!: filter_cong arg_cong [where f = "map Suc"])
    then show ?thesis
      using True Cons.IH [of S] by (simp add: comp_def del: upt_Suc)
  next
    case False
    have "filter (\<lambda>i. key ((x # xs) ! i) \<notin> S \<and> (\<forall>j<i. key ((x # xs) ! j) \<noteq> key ((x # xs) ! i)))
            [0..<length (x # xs)] =
          0 # map Suc (filter (\<lambda>i. key (xs ! i) \<notin> insert (key x) S \<and>
                                 (\<forall>j<i. key (xs ! j) \<noteq> key (xs ! i)))
            [0..<length xs])"
      unfolding shift using False
      by (auto simp add: filter_map comp_def all_Suc intro!: filter_cong arg_cong [where f = "map Suc"])
    then show ?thesis
      using False Cons.IH [of "insert (key x) S"] by (simp add: comp_def del: upt_Suc)
  qed
qed

lemma extractContentLinks_dedup:
  "distinct (map cl_url (extractContentLinks env baseUrl elements links)) \<and>
   map (\<lambda>c. (cl_url c, cl_label c)) (extractContentLinks env baseUrl elements links) =
     map (\<lambda>l. (link_key env l, candidate_label l))
       (first_by (link_key env) {} (filter candidate links))"
proof -
  let ?R = "extractContentLinks env baseUrl elements links"
  let ?F = "first_by (link_key env) {} (filter candidate links)"
  have eq: "map (\<lambda>c. (cl_url c, cl_label c)) ?R = map (\<lambda>l. (link_key env l, candidate_label l)) ?F"
    by (rule extractContentLinks_first_by)
  have "map cl_url ?R = map fst (map (\<lambda>c. (cl_url c, cl_label c)) ?R)"
    by (simp add: comp_def)
  also have "\<dots> = map (link_key env) ?F"
    by (simp add: eq comp_def)
  finally have "map cl_url ?R = map (link_key env) ?F" .
  moreover have "distinct (map (link_key env) ?F)"
    using first_by_keys [of "link_key env" "{}" "filter candidate links"] by simp
  ultimately show ?thesis using eq by simp
qed

text \<open>
  Claim C10.  No two entries of \<open>content_links\<close> have the same \<open>url\<close>; and the
  entries are, in document order, those of the links that pass the loop's filters
  (\<open>candidate\<close>) and whose normalized URL no earlier such link has: the first occurrence
  of each URL, with its label.
\<close>

theorem extractContentLinks_first_occurrence:
  "distinct (map cl_url (extractContentLinks env baseUrl elements links)) \<and>
   map (\<lambda>c. (cl_url c, cl_label c)) (extractContentLinks env baseUrl elements links) =
     map (\<lambda>i. (link_key env (filter candidate links ! i),
                candidate_label (filter candidate links ! i)))
       (filter (\<lambda>i. \<forall>j<i. link_key env (filter candidate links ! j)
                              \<noteq> link_key env (filter candidate links ! i))
          [0..<length (filter candidate links)])"
  using extractContentLinks_dedup [of env baseUrl elements links]
  by (simp add: first_by_positions comp_def)

definition plain_env :: nav_env where
  "plain_env = \<lparr> normalizeUrlSafe = (\<lambda>href. href), isExternalLink = (\<lambda>href. False),
                 positionPct = (\<lambda>index total. 0) \<rparr>"

definition anchor :: "string \<Rightarrow> string \<Rightarrow> ContentAnchor" where
  "anchor href txt =
     \<lparr> a_href = href, a_in_excluded = False, a_text = txt, a_img_alt = None,
       a_position = - 1, a_prev_heading = None, a_parent_prev_heading = None \<rparr>"

definition three_anchors :: "ContentAnchor list" where
  "three_anchors =
     [anchor ''https://ex.com/x'' ''first'',
      anchor ''https://ex.com/x'' ''again'',
      anchor ''https://ex.com/y'' ''other'']"

lemma three_candidates: "filter candidate three_anchors = three_anchors"
  by (simp add: three_anchors_def anchor_def candidate_def or_else_def trim_def is_ws_def)

theorem extractContentLinks_first_occurrence_witness:
  "map (\<lambda>c. (cl_url c, cl_label c))
     (extractContentLinks plain_env ''https://ex.com'' [] three_anchors) =
   [(''https://ex.com/x'', ''first''), (''https://ex.com/y'', ''other'')]"
proof -
  have keys: "link_key plain_env (three_anchors ! 0) = ''https://ex.com/x''"
    "link_key plain_env (three_anchors ! Suc 0) = ''https://ex.com/x''"
    "link_key plain_env (three_anchors ! Suc (Suc 0)) = ''https://ex.com/y''"
    by (simp_all add: link_key_def plain_env_def three_anchors_def anchor_def)
  have labels: "candidate_label (three_anchors ! 0) = ''first''"
    "candidate_label (three_anchors ! Suc (Suc 0)) = ''other''"
    by (simp_all add: candidate_label_def three_anchors_def anchor_def or_else_def trim_def
        is_ws_def)
  have len: "length three_anchors = Suc (Suc (Suc 0))"
    by (simp add: three_anchors_def)
  have idx: "[0..<Suc (Suc (Suc 0))] = [0, Suc 0, Suc (Suc 0)]"
    by (simp add: upt_rec)
  show ?thesis
    using extractContentLinks_first_occurrence [of plain_env "''https://ex.com''" "[]" three_anchors]
    by (simp add: three_candidates len idx keys labels All_less_Suc)
qed


section \<open>URL normalizer (src/core/urlNormalizer.ts)\<close>

text \<open>
  \<open>normalizeUrl\<close> throws \<open>Invalid URL\<close> on the empty string and \<open>Failed to
  normalize\<close> when the URL API throws.  The URL API is modelled on the URLs
  \<open>http(s)://host/path?query#fragment\<close> whose host is made of dot-separated labels of
  letters, digits and hyphens, the last label starting with a letter; whose path is made
  of letters, digits and \<open>-._~/\<close>, without \<open>.\<close> or \<open>..\<close> segments; and whose query is
  made of letters, digits and \<open>*-._=&\<close>, with at most one \<open>=\<close> in a pair.  On these
  the parser and the serializers copy the characters (and put the host in lower case);
  every other input is answered \<open>OutsideModel\<close>.
\<close>

datatype url_error = InvalidUrl | FailedToNormalize | OutsideModel

record URL =
  protocol :: string
  hostname :: string
  pathname :: string
  search :: string

text \<open>\<open>TRACKING_PARAMS\<close> (src/config/constants.ts).\<close>

definition TRACKING_PARAMS :: "string list" where
  "TRACKING_PARAMS =
     [''utm_source'', ''utm_medium'', ''utm_campaign'', ''utm_term'', ''utm_content'',
      ''utm_id'', ''fbclid'', ''gclid'', ''msclkid'', ''ref'', ''mc_cid'', ''mc_eid'',
      ''_ga'', ''_gl'', ''gad_source'', ''campaignid'', ''adgroupid'']"

definition is_alnum :: "char \<Rightarrow> bool" where
  "is_alnum c =
     (let n = of_char c :: nat
      in (48 \<le> n \<and> n \<le> 57) \<or> (65 \<le> n \<and> n \<le> 90) \<or> (97 \<le> n \<and> n \<le> 122))"

definition is_alpha :: "char \<Rightarrow> bool" where
  "is_alpha c =
     (let n = of_char c :: nat in (65 \<le> n \<and> n \<le> 90) \<or> (97 \<le> n \<and> n \<le> 122))"

fun split_on :: "char \<Rightarrow> string \<Rightarrow> string list" where
  "split_on d [] = [[]]"
| "split_on d (c # cs) =
     (if c = d then [] # split_on d cs
      else (case split_on d cs of [] \<Rightarrow> [[c]] | w # ws \<Rightarrow> (c # w) # ws))"

fun join_with :: "string \<Rightarrow> string list \<Rightarrow> string" where
  "join_with sep [] = []"
| "join_with sep [x] = x"
| "join_with sep (x # y # ys) = x @ sep @ join_with sep (y # ys)"

definition model_host :: "string \<Rightarrow> bool" where
  "model_host h =
     (list_all (\<lambda>c. is_alnum c \<or> c = CHR ''-'' \<or> c = CHR ''.'') h \<and>
      list_all (\<lambda>l. l \<noteq> [] \<and> \<not> starts_with ''xn--'' (map to_lower l)) (split_on CHR ''.'' h) \<and>
      (case last (split_on CHR ''.'' h) of [] \<Rightarrow> False | c # cs \<Rightarrow> is_alpha c))"

definition model_path :: "string \<Rightarrow> bool" where
  "model_path p =
     (list_all (\<lambda>c. is_alnum c \<or> c \<in> set ''-._~/'') p \<and>
      list_all (\<lambda>seg. seg \<noteq> ''.'' \<and> seg \<noteq> ''..'') (split_on CHR ''/'' p))"

definition model_query :: "string \<Rightarrow> bool" where
  "model_query q =
     (list_all (\<lambda>c. is_alnum c \<or> c \<in> set ''*-._=&'') q \<and>
      list_all (\<lambda>piece. length (filter (\<lambda>c. c = CHR ''='') piece) \<le> 1) (split_on CHR ''&'' q))"

text \<open>The test \<open>/^https?:\/\//i\<close>, and \<open>new URL(normalized)\<close>.\<close>

definition strip_scheme :: "string \<Rightarrow> (string \<times> string) option" where
  "strip_scheme s =
     (case strip_prefix_ci ''https://'' s of
        Some r \<Rightarrow> Some (''https:'', r)
      | None \<Rightarrow>
          (case strip_prefix_ci ''http://'' s of
             Some r \<Rightarrow> Some (''http:'', r)
           | None \<Rightarrow> None))"

definition new_URL :: "string \<Rightarrow> url_error + URL" where
  "new_URL s =
     (case strip_scheme s of
        None \<Rightarrow> Inl OutsideModel
      | Some (proto, r) \<Rightarrow>
          let is_host_char = (\<lambda>c. c \<noteq> CHR ''/'' \<and> c \<noteq> CHR ''?'' \<and> c \<noteq> CHR ''#'');
              host = takeWhile is_host_char r;
              r1 = dropWhile is_host_char r;
              is_path_char = (\<lambda>c. c \<noteq> CHR ''?'' \<and> c \<noteq> CHR ''#'');
              path = takeWhile is_path_char r1;
              r2 = dropWhile is_path_char r1;
              query = (case r2 of [] \<Rightarrow> []
                       | c # q \<Rightarrow> if c = CHR ''?'' then takeWhile (\<lambda>c. c \<noteq> CHR ''#'') q else [])
          in if r = [] then Inl FailedToNormalize
             else if model_host host \<and> model_path path \<and> model_query query
             then Inr \<lparr> protocol = proto,
                        hostname = map to_lower host,
                        pathname = (if path = [] then ''/'' else path),
                        search = (if query = [] then [] else ''?'' @ query) \<rparr>
             else Inl OutsideModel)"

text \<open>
  \<open>new URLSearchParams(urlObj.search)\<close>; the stable sort of the entries by
  \<open>a.localeCompare(b)\<close>, whose order \<open>localeCompare_le a b\<close> (\<open>a.localeCompare(b) <= 0\<close>)
  is a parameter; and \<open>toString()\<close>.
\<close>

definition parse_pair :: "string \<Rightarrow> string \<times> string" where
  "parse_pair piece =
     (takeWhile (\<lambda>c. c \<noteq> CHR ''='') piece, drop 1 (dropWhile (\<lambda>c. c \<noteq> CHR ''='') piece))"

definition URLSearchParams :: "string \<Rightarrow> (string \<times> string) list" where
  "URLSearchParams srch =
     map parse_pair (filter (\<lambda>piece. piece \<noteq> []) (split_on CHR ''&'' (drop 1 srch)))"

fun insert_sorted ::
  "(string \<Rightarrow> string \<Rightarrow> bool) \<Rightarrow> string \<times> string \<Rightarrow> (string \<times> string) list
     \<Rightarrow> (string \<times> string) list" where
  "insert_sorted le x [] = [x]"
| "insert_sorted le x (y # ys) =
     (if le (fst x) (fst y) then x # y # ys else y # insert_sorted le x ys)"

definition sort_entries ::
  "(string \<Rightarrow> string \<Rightarrow> bool) \<Rightarrow> (string \<times> string) list \<Rightarrow> (string \<times> string) list" where
  "sort_entries le entries = foldr (insert_sorted le) entries []"

definition params_toString :: "(string \<times> string) list \<Rightarrow> string" where
  "params_toString entries = join_with ''&'' (map (\<lambda>(k, v). k @ ''='' @ v) entries)"

definition has_scheme :: "string \<Rightarrow> bool" where
  "has_scheme s = (strip_scheme s \<noteq> None)"

definition normalizeUrl :: "(string \<Rightarrow> string \<Rightarrow> bool) \<Rightarrow> string \<Rightarrow> url_error + string" where
  "normalizeUrl localeCompare_le u =
     (if u = [] then Inl InvalidUrl
      else
        let trimmed = trim u;
            normalized = (if has_scheme trimmed then trimmed else ''https://'' @ trimmed)
        in case new_URL normalized of
             Inl e \<Rightarrow> Inl e
           | Inr urlObj \<Rightarrow>
               let searchParams = filter (\<lambda>(k, v). k \<notin> set TRACKING_PARAMS)
                                    (URLSearchParams (search urlObj));
                   sortedParams = sort_entries localeCompare_le searchParams;
                   q = params_toString sortedParams;
                   srch = (if q = [] then [] else ''?'' @ q);
                   p = pathname urlObj;
                   p' = (if p \<noteq> ''/'' \<and> p \<noteq> [] \<and> last p = CHR ''/'' then butlast p else p)
               in Inr (protocol urlObj @ ''//'' @ hostname urlObj @ p' @ srch))"

text \<open>
  Claim C2 on \<open>http://example.com/a//\<close>.  The path \<open>/a//\<close> loses one trailing slash;
  the result still ends in a slash, and normalizing it again gives another URL.
\<close>

theorem normalizeUrl_not_idempotent:
  "normalizeUrl le ''http://example.com/a//'' = Inr ''http://example.com/a/'' \<and>
   normalizeUrl le ''http://example.com/a/'' = Inr ''http://example.com/a''"
  by code_simp


end
